theory Spec2Isabelle
  imports Main
begin

section \<open>The AuthProxyWorkload controller (internal/controller/authproxyworkload_controller.go)\<close>

text \<open>
  A shallow embedding of the reconcile loop of the AuthProxyWorkload controller.
  Pointers to structs are modelled by the structs they point to: every call site of
  \<open>replaceCondition\<close> and \<open>replaceStatus\<close> passes a freshly allocated value, so no
  slot of a slice aliases the new element, and slices are assumed to hold non-nil
  pointers. The Kubernetes client, the clock and the functions of the packages
  \<open>workload\<close> and \<open>cloudsqlapi\<close> that the file calls are parameters of the model.
\<close>

subsection \<open>Time, errors and results\<close>

text \<open>An instant; \<open>0\<close> stands for the zero value of Go's \<open>time.Time\<close>.\<close>

type_synonym Time = nat

definition IsZero :: "Time \<Rightarrow> bool" where
  "IsZero t = (t = 0)"

text \<open>\<open>(*metav1.Time).IsZero\<close>: a nil pointer is zero too.\<close>

definition IsZeroPtr :: "Time option \<Rightarrow> bool" where
  "IsZeroPtr t = (case t of None \<Rightarrow> True | Some x \<Rightarrow> IsZero x)"

text \<open>
  A Go error: an API status error (\<open>*errors.StatusError\<close>) with the reason, the
  code and the message of its status, an error that wraps another one (it has the text
  it prints and the error that \<open>Unwrap\<close> returns), or any other error with its text.
\<close>

datatype error =
    StatusError string int string
  | WrappedError string error
  | PlainError string

fun errorText :: "error \<Rightarrow> string" where
  "errorText (StatusError _ _ m) = m"
| "errorText (WrappedError m _) = m"
| "errorText (PlainError m) = m"

text \<open>
  \<open>errors.IsNotFound\<close> of k8s.io/apimachinery, which \<open>loadByName\<close> calls.
  \<open>reasonAndCodeForError\<close> reads the reason and the code of the first API status error
  in the chain of wrapped errors, and the unknown reason (the empty string) and code 0
  when there is none. The error is not-found when the reason is \<open>NotFound\<close>, or when the
  reason is not one of the known reasons and the code is 404.
\<close>

fun reasonAndCodeForError :: "error \<Rightarrow> string \<times> int" where
  "reasonAndCodeForError (StatusError reason code _) = (reason, code)"
| "reasonAndCodeForError (WrappedError _ cause) = reasonAndCodeForError cause"
| "reasonAndCodeForError (PlainError _) = ([], 0)"

definition knownReasons :: "string list" where
  "knownReasons =
     [''Unauthorized'', ''Forbidden'', ''NotFound'', ''AlreadyExists'', ''Conflict'',
      ''Gone'', ''Invalid'', ''ServerTimeout'', ''Timeout'', ''TooManyRequests'',
      ''BadRequest'', ''MethodNotAllowed'', ''NotAcceptable'', ''RequestEntityTooLarge'',
      ''UnsupportedMediaType'', ''InternalError'', ''Expired'', ''ServiceUnavailable'']"

definition IsNotFound :: "error \<Rightarrow> bool" where
  "IsNotFound err =
     (case reasonAndCodeForError err of
        (reason, code) \<Rightarrow>
          if reason = ''NotFound'' then True
          else if reason \<notin> set knownReasons \<and> code = 404 then True
          else False)"

text \<open>\<open>ctrl.Result\<close>; the delay is in nanoseconds, as \<open>time.Duration\<close> is.\<close>

record Result =
  Requeue :: bool
  RequeueAfter :: int

definition noRequeue :: Result where
  "noRequeue = \<lparr>Requeue = False, RequeueAfter = 0\<rparr>"

definition requeueNow :: Result where
  "requeueNow = \<lparr>Requeue = True, RequeueAfter = 0\<rparr>"

definition requeueWithDelay :: Result where
  "requeueWithDelay = \<lparr>Requeue = True, RequeueAfter = 30 * 1000000000\<rparr>"

subsection \<open>The data model\<close>

type_synonym NamespacedName = "string \<times> string"

record Condition =
  Type :: string
  Status :: string
  ObservedGeneration :: int
  Reason :: string
  Message :: string
  LastTransitionTime :: Time

definition ConditionTrue :: string where
  "ConditionTrue = ''True''"

record WorkloadStatus =
  Kind :: string
  Version :: string
  Namespace :: string
  Name :: string
  Conditions :: "Condition list"

text \<open>
  \<open>cloudsqlapi.WorkloadSelectorSpec\<close>. The label selector is carried as an opaque
  token; its conversion \<open>LabelsSelector\<close> is a parameter of the reconciler.
\<close>

record WorkloadSelectorSpec =
  selKind :: string
  selNamespace :: string
  selName :: string
  selSelector :: string

text \<open>
  \<open>cloudsqlapi.AuthProxyWorkload\<close>, with the fields of its metadata, spec and status
  that the controller reads or writes.
\<close>

record AuthProxyWorkload =
  metaNamespace :: string
  metaName :: string
  Generation :: int
  DeletionTimestamp :: "Time option"
  Finalizers :: "string list"
  SpecWorkload :: WorkloadSelectorSpec
  StatusConditions :: "Condition list"
  StatusWorkloadStatus :: "WorkloadStatus list"

text \<open>A \<open>workload.Workload\<close>: the identity of the object it wraps.\<close>

record Workload =
  objKind :: string
  objVersion :: string
  objNamespace :: string
  objName :: string

record WorkloadList =
  listKind :: string
  Workloads :: "Workload list"

text \<open>
  Modelled from the spec: the constants of package \<open>cloudsqlapi\<close>
  (internal/api/v1alpha1), which is not part of the sources at hand. The spec names the
  condition types \<open>UpToDate\<close> and \<open>WorkloadUpToDate\<close> and the reasons
  \<open>NoWorkloadsFound\<close>, \<open>FinishedReconcile\<close> and \<open>UpToDate\<close>.
\<close>

definition ConditionUpToDate :: string where
  "ConditionUpToDate = ''UpToDate''"

definition ConditionWorkloadUpToDate :: string where
  "ConditionWorkloadUpToDate = ''WorkloadUpToDate''"

definition ReasonNoWorkloadsFound :: string where
  "ReasonNoWorkloadsFound = ''NoWorkloadsFound''"

definition ReasonFinishedReconcile :: string where
  "ReasonFinishedReconcile = ''FinishedReconcile''"

definition ReasonUpToDate :: string where
  "ReasonUpToDate = ''UpToDate''"

subsection \<open>The deletion tracker\<close>

text \<open>
  \<open>recentlyDeletedCache\<close>: the map may be nil until the first \<open>set\<close>. The lock is
  not modelled: one call runs at a time in this embedding.
\<close>

record recentlyDeletedCache =
  cacheValues :: "(NamespacedName \<rightharpoonup> bool) option"

definition recentlyDeletedCache_set ::
  "recentlyDeletedCache \<Rightarrow> NamespacedName \<Rightarrow> bool \<Rightarrow> recentlyDeletedCache" where
  "recentlyDeletedCache_set c k deleted =
     (let m = (case cacheValues c of None \<Rightarrow> Map.empty | Some m \<Rightarrow> m)
      in c\<lparr>cacheValues := Some (m(k \<mapsto> deleted))\<rparr>)"

definition recentlyDeletedCache_get :: "recentlyDeletedCache \<Rightarrow> NamespacedName \<Rightarrow> bool" where
  "recentlyDeletedCache_get c k =
     (case cacheValues c of
        None \<Rightarrow> False
      | Some m \<Rightarrow> (case m k of None \<Rightarrow> False | Some deleted \<Rightarrow> deleted))"

subsection \<open>Merging conditions and workload statuses\<close>

fun findCondition :: "Condition list \<Rightarrow> string \<Rightarrow> Condition option" where
  "findCondition [] name = None"
| "findCondition (c # conds) name =
     (if Type c = name then Some c else findCondition conds name)"

text \<open>
  \<open>replaceCondition\<close>; \<open>now\<close> is what \<open>time.Now()\<close> returns when the function
  reads the clock. The loop returns at the first condition of the new type.
\<close>

fun replaceCondition :: "Time \<Rightarrow> Condition list \<Rightarrow> Condition \<Rightarrow> Condition list" where
  "replaceCondition now [] newC = [newC\<lparr>LastTransitionTime := now\<rparr>]"
| "replaceCondition now (c # conds) newC =
     (if Type c \<noteq> Type newC then c # replaceCondition now conds newC
      else if Status c = Status newC \<and> \<not> IsZero (LastTransitionTime c)
        then newC\<lparr>LastTransitionTime := LastTransitionTime c\<rparr> # conds
        else newC\<lparr>LastTransitionTime := now\<rparr> # conds)"

text \<open>
  The loop of \<open>replaceStatus\<close>: it visits every slot, overwrites each one that matches
  and remembers in \<open>updated\<close> whether it overwrote any.
\<close>

fun replaceStatus_loop ::
  "WorkloadStatus list \<Rightarrow> WorkloadStatus \<Rightarrow> bool \<Rightarrow> WorkloadStatus list \<times> bool" where
  "replaceStatus_loop [] updatedStatus updated = ([], updated)"
| "replaceStatus_loop (s # statuses) updatedStatus updated =
     (if Name s = Name updatedStatus \<and> Namespace s = Namespace updatedStatus \<and>
         Kind s = Kind updatedStatus \<and> Version s = Version updatedStatus
      then (case replaceStatus_loop statuses updatedStatus True of
              (rest, u) \<Rightarrow> (updatedStatus # rest, u))
      else (case replaceStatus_loop statuses updatedStatus updated of
              (rest, u) \<Rightarrow> (s # rest, u)))"

definition replaceStatus :: "WorkloadStatus list \<Rightarrow> WorkloadStatus \<Rightarrow> WorkloadStatus list" where
  "replaceStatus statuses updatedStatus =
     (case replaceStatus_loop statuses updatedStatus False of
        (statuses', updated) \<Rightarrow>
          if \<not> updated then statuses' @ [updatedStatus] else statuses')"

definition newStatus :: "Workload \<Rightarrow> WorkloadStatus" where
  "newStatus wl =
     \<lparr>Kind = objKind wl, Version = objVersion wl, Namespace = objNamespace wl,
      Name = objName wl, Conditions = []\<rparr>"

text \<open>The key of a workload status entry.\<close>

definition statusKey :: "WorkloadStatus \<Rightarrow> string \<times> string \<times> string \<times> string" where
  "statusKey s = (Kind s, Version s, Namespace s, Name s)"

subsection \<open>Finalizers\<close>

text \<open>
  The three functions of controller-runtime's \<open>controllerutil\<close> that the controller
  calls, on the list of finalizers of the resource: \<open>AddFinalizer\<close> appends the
  finalizer unless it is there, \<open>RemoveFinalizer\<close> drops every occurrence.
\<close>

definition ContainsFinalizer :: "AuthProxyWorkload \<Rightarrow> string \<Rightarrow> bool" where
  "ContainsFinalizer o' finalizer = (finalizer \<in> set (Finalizers o'))"

definition AddFinalizer :: "AuthProxyWorkload \<Rightarrow> string \<Rightarrow> AuthProxyWorkload" where
  "AddFinalizer o' finalizer =
     (if finalizer \<in> set (Finalizers o') then o'
      else o'\<lparr>Finalizers := Finalizers o' @ [finalizer]\<rparr>)"

definition RemoveFinalizer :: "AuthProxyWorkload \<Rightarrow> string \<Rightarrow> AuthProxyWorkload" where
  "RemoveFinalizer o' finalizer =
     o'\<lparr>Finalizers := filter (\<lambda>f. f \<noteq> finalizer) (Finalizers o')\<rparr>"

subsection \<open>The reconciler and the world it runs in\<close>

text \<open>
  The calls the controller issues to the Kubernetes client, in the order it issues them.
  \<open>CallUpdate\<close> and \<open>CallStatusPatch\<close> carry the resource as it is sent.
\<close>

datatype call =
    CallGet NamespacedName
  | CallGetObject NamespacedName Workload
  | CallList WorkloadList string string
  | CallUpdate AuthProxyWorkload
  | CallStatusPatch AuthProxyWorkload AuthProxyWorkload

fun isWrite :: "call \<Rightarrow> bool" where
  "isWrite (CallUpdate _) = True"
| "isWrite (CallStatusPatch _ _) = True"
| "isWrite _ = False"

fun isStatusPatch :: "call \<Rightarrow> bool" where
  "isStatusPatch (CallStatusPatch _ _) = True"
| "isStatusPatch _ = False"

text \<open>
  \<open>AuthProxyWorkloadReconciler\<close>. The embedded client is a parameter: each of its
  methods answers from the state \<open>'s\<close> of the store, a read leaves the store as it is and
  a write returns the store it leaves. \<open>WorkloadForKind\<close>, \<open>WorkloadListForKind\<close>
  (package \<open>workload\<close>), \<open>LabelsSelector\<close>, \<open>AnnotationPrefix\<close> (package
  \<open>cloudsqlapi\<close>) and \<open>ParseKindArg\<close> (the kind of the parsed group and kind) are
  parameters as well.
\<close>

record 's Reconciler =
  Get :: "'s \<Rightarrow> NamespacedName \<Rightarrow> error + AuthProxyWorkload"
  GetObject :: "'s \<Rightarrow> NamespacedName \<Rightarrow> Workload \<Rightarrow> error + Workload"
  ListObjects :: "'s \<Rightarrow> WorkloadList \<Rightarrow> string \<Rightarrow> string \<Rightarrow> error + WorkloadList"
  Update :: "'s \<Rightarrow> AuthProxyWorkload \<Rightarrow> 's \<times> error option"
  StatusPatch :: "'s \<Rightarrow> AuthProxyWorkload \<Rightarrow> AuthProxyWorkload \<Rightarrow> 's \<times> error option"
  WorkloadForKind :: "string \<Rightarrow> error + Workload"
  WorkloadListForKind :: "string \<Rightarrow> error + WorkloadList"
  LabelsSelector :: "WorkloadSelectorSpec \<Rightarrow> error + string"
  ParseKindArg :: "string \<Rightarrow> string"
  AnnotationPrefix :: string

definition finalizerName :: "'s Reconciler \<Rightarrow> string" where
  "finalizerName r = AnnotationPrefix r @ ''/AuthProxyWorkload-finalizer''"

text \<open>
  What a call of \<open>Reconcile\<close> reads and changes besides its arguments: the store, the
  calls issued to the client so far, the deletion tracker, and the clock, a sequence of
  readings of which \<open>ticks\<close> have been taken.
\<close>

record 's World =
  store :: 's
  calls :: "call list"
  recentlyDeleted :: recentlyDeletedCache
  clock :: "nat \<Rightarrow> Time"
  ticks :: nat

definition issue :: "call \<Rightarrow> 's World \<Rightarrow> 's World" where
  "issue c w = w\<lparr>calls := calls w @ [c]\<rparr>"

text \<open>\<open>time.Now()\<close>.\<close>

definition Now :: "'s World \<Rightarrow> Time \<times> 's World" where
  "Now w = (clock w (ticks w), w\<lparr>ticks := Suc (ticks w)\<rparr>)"

text \<open>The calls issued between the world \<open>w\<close> and a later world \<open>w'\<close>.\<close>

definition issued :: "'s World \<Rightarrow> 's World \<Rightarrow> call list" where
  "issued w w' = drop (length (calls w)) (calls w')"

subsection \<open>Finding the workloads\<close>

definition loadByName ::
  "'s Reconciler \<Rightarrow> 's World \<Rightarrow> WorkloadSelectorSpec \<Rightarrow> string \<Rightarrow>
     (error + Workload list) \<times> 's World" where
  "loadByName r w workloadSelector ns =
     (let key = (ns, selName workloadSelector) in
      case WorkloadForKind r (selKind workloadSelector) of
        Inl err \<Rightarrow>
          (Inl (PlainError (''unable to load by name '' @ fst key @ ''/'' @ snd key @
                  '':  '' @ errorText err)), w)
      | Inr wl \<Rightarrow>
          (let w1 = issue (CallGetObject key wl) w in
           case GetObject r (store w) key wl of
             Inl err \<Rightarrow>
               if IsNotFound err then (Inr [], w1)
               else (Inl (PlainError (''unable to load resource by name '' @ fst key @
                       ''/'' @ snd key @ '':  '' @ errorText err)), w1)
           | Inr wl' \<Rightarrow> (Inr [wl'], w1)))"

definition loadByLabelSelector ::
  "'s Reconciler \<Rightarrow> 's World \<Rightarrow> WorkloadSelectorSpec \<Rightarrow> string \<Rightarrow>
     (error + Workload list) \<times> 's World" where
  "loadByLabelSelector r w workloadSelector ns =
     (case LabelsSelector r workloadSelector of
        Inl err \<Rightarrow> (Inl err, w)
      | Inr sel \<Rightarrow>
          (case WorkloadListForKind r (ParseKindArg r (selKind workloadSelector)) of
             Inl err \<Rightarrow> (Inl err, w)
           | Inr wl \<Rightarrow>
               (let w1 = issue (CallList wl ns sel) w in
                case ListObjects r (store w) wl ns sel of
                  Inl err \<Rightarrow> (Inl err, w1)
                | Inr wl' \<Rightarrow> (Inr (Workloads wl'), w1))))"

definition listWorkloads ::
  "'s Reconciler \<Rightarrow> 's World \<Rightarrow> WorkloadSelectorSpec \<Rightarrow> string \<Rightarrow>
     (error + Workload list) \<times> 's World" where
  "listWorkloads r w workloadSelector ns =
     (let ns' = (if selNamespace workloadSelector \<noteq> [] then selNamespace workloadSelector
                 else ns)
      in if selName workloadSelector \<noteq> [] then loadByName r w workloadSelector ns'
         else loadByLabelSelector r w workloadSelector ns')"

subsection \<open>The status of the workloads\<close>

text \<open>
  The loop of \<open>updateWorkloadStatus\<close> over the matching workloads: each gets a fresh
  status entry with the condition \<open>WorkloadUpToDate\<close>, merged into the status of the
  resource held in memory.
\<close>

fun updateWorkloadStatus_loop ::
  "Workload list \<Rightarrow> AuthProxyWorkload \<Rightarrow> 's World \<Rightarrow> AuthProxyWorkload \<times> 's World" where
  "updateWorkloadStatus_loop [] resource w = (resource, w)"
| "updateWorkloadStatus_loop (wl # matching) resource w =
     (let s = newStatus wl in
      case Now w of
        (now, w1) \<Rightarrow>
          (let s1 = s\<lparr>Conditions := replaceCondition now (Conditions s)
                       \<lparr>Type = ConditionWorkloadUpToDate, Status = ConditionTrue,
                        ObservedGeneration = Generation resource, Reason = ReasonUpToDate,
                        Message = ''No update needed for this workload'',
                        LastTransitionTime = 0\<rparr>\<rparr>;
               resource1 = resource\<lparr>StatusWorkloadStatus :=
                             replaceStatus (StatusWorkloadStatus resource) s1\<rparr>
           in updateWorkloadStatus_loop matching resource1 w1))"

definition updateWorkloadStatus ::
  "'s Reconciler \<Rightarrow> 's World \<Rightarrow> AuthProxyWorkload \<Rightarrow>
     (error + Workload list) \<times> AuthProxyWorkload \<times> 's World" where
  "updateWorkloadStatus r w resource =
     (case listWorkloads r w (SpecWorkload resource) (metaNamespace resource) of
        (Inl err, w1) \<Rightarrow> (Inl err, resource, w1)
      | (Inr matching, w1) \<Rightarrow>
          (case updateWorkloadStatus_loop matching resource w1 of
             (resource1, w2) \<Rightarrow> (Inr matching, resource1, w2)))"

subsection \<open>The reconcile loop\<close>

text \<open>The decimal digits of a number, as \<open>fmt.Sprintf\<close> prints \<open>%d\<close>.\<close>

fun Sprintf_d :: "nat \<Rightarrow> string" where
  "Sprintf_d n =
     (if n < 10 then [char_of (48 + n)]
      else Sprintf_d (n div 10) @ [char_of (48 + n mod 10)])"

declare Sprintf_d.simps [simp del]

text \<open>
  \<open>patchAuthProxyWorkloadStatus\<close>: the status patch, then a read of the resource into
  \<open>orig\<close>, which the callers drop.
\<close>

definition patchAuthProxyWorkloadStatus ::
  "'s Reconciler \<Rightarrow> 's World \<Rightarrow> AuthProxyWorkload \<Rightarrow> AuthProxyWorkload \<Rightarrow>
     error option \<times> 's World" where
  "patchAuthProxyWorkloadStatus r w resource orig =
     (let w1 = issue (CallStatusPatch resource orig) w in
      case StatusPatch r (store w) resource orig of
        (st, Some err) \<Rightarrow> (Some err, w1\<lparr>store := st\<rparr>)
      | (st, None) \<Rightarrow>
          (let key = (metaNamespace resource, metaName resource);
               w2 = issue (CallGet key) (w1\<lparr>store := st\<rparr>)
           in case Get r st key of
                Inl err \<Rightarrow> (Some err, w2)
              | Inr orig' \<Rightarrow> (None, w2)))"

definition reconcileResult ::
  "'s Reconciler \<Rightarrow> 's World \<Rightarrow> AuthProxyWorkload \<Rightarrow> AuthProxyWorkload \<Rightarrow> string \<Rightarrow>
     string \<Rightarrow> (Result \<times> error option) \<times> 's World" where
  "reconcileResult r w resource orig reason message =
     (case Now w of
        (now, w1) \<Rightarrow>
          (let resource1 = resource\<lparr>StatusConditions :=
                 replaceCondition now (StatusConditions resource)
                   \<lparr>Type = ConditionUpToDate, Status = ConditionTrue,
                    ObservedGeneration = Generation resource, Reason = reason,
                    Message = message, LastTransitionTime = 0\<rparr>\<rparr>
           in case patchAuthProxyWorkloadStatus r w1 resource1 orig of
                (Some err, w2) \<Rightarrow> ((noRequeue, Some err), w2)
              | (None, w2) \<Rightarrow> ((noRequeue, None), w2)))"

definition applyFinalizer ::
  "'s Reconciler \<Rightarrow> 's World \<Rightarrow> AuthProxyWorkload \<Rightarrow> (Result \<times> error option) \<times> 's World" where
  "applyFinalizer r w resource =
     (let resource1 = AddFinalizer resource (finalizerName r);
          w1 = issue (CallUpdate resource1) w
      in case Update r (store w) resource1 of
           (st, Some err) \<Rightarrow> ((requeueNow, Some err), w1\<lparr>store := st\<rparr>)
         | (st, None) \<Rightarrow> ((requeueNow, None), w1\<lparr>store := st\<rparr>))"

definition doCreateUpdate ::
  "'s Reconciler \<Rightarrow> 's World \<Rightarrow> AuthProxyWorkload \<Rightarrow> (Result \<times> error option) \<times> 's World" where
  "doCreateUpdate r w resource =
     (let orig = resource in
      if \<not> ContainsFinalizer resource (finalizerName r) then applyFinalizer r w resource
      else
        case updateWorkloadStatus r w resource of
          (Inl err, resource1, w1) \<Rightarrow> ((requeueWithDelay, Some err), w1)
        | (Inr allWorkloads, resource1, w1) \<Rightarrow>
            if length allWorkloads = 0
            then reconcileResult r w1 resource1 orig ReasonNoWorkloadsFound
                   ''No workload updates needed''
            else reconcileResult r w1 resource1 orig ReasonFinishedReconcile
                   (''Reconciled '' @ Sprintf_d (length allWorkloads) @
                    '' matching workloads complete''))"

definition doDelete ::
  "'s Reconciler \<Rightarrow> 's World \<Rightarrow> AuthProxyWorkload \<Rightarrow> (Result \<times> error option) \<times> 's World" where
  "doDelete r w resource =
     (case updateWorkloadStatus r w resource of
        (Inl err, resource1, w1) \<Rightarrow> ((requeueNow, Some err), w1)
      | (Inr matching, resource1, w1) \<Rightarrow>
          if ContainsFinalizer resource1 (finalizerName r) then
            (let resource2 = RemoveFinalizer resource1 (finalizerName r);
                 w2 = issue (CallUpdate resource2) w1
             in case Update r (store w1) resource2 of
                  (st, Some err) \<Rightarrow> ((noRequeue, Some err), w2\<lparr>store := st\<rparr>)
                | (st, None) \<Rightarrow> ((noRequeue, None), w2\<lparr>store := st\<rparr>))
          else ((noRequeue, None), w1))"

definition Reconcile ::
  "'s Reconciler \<Rightarrow> 's World \<Rightarrow> NamespacedName \<Rightarrow> (Result \<times> error option) \<times> 's World" where
  "Reconcile r w req =
     (let w1 = issue (CallGet req) w in
      case Get r (store w) req of
        Inl err \<Rightarrow>
          if recentlyDeletedCache_get (recentlyDeleted w1) req then ((noRequeue, None), w1)
          else ((requeueWithDelay, Some err), w1)
      | Inr resource \<Rightarrow>
          if \<not> IsZeroPtr (DeletionTimestamp resource) then
            doDelete r
              (w1\<lparr>recentlyDeleted := recentlyDeletedCache_set (recentlyDeleted w1) req True\<rparr>)
              resource
          else
            doCreateUpdate r
              (w1\<lparr>recentlyDeleted := recentlyDeletedCache_set (recentlyDeleted w1) req False\<rparr>)
              resource)"

subsection \<open>An in-memory client and example resources\<close>

text \<open>
  A store that holds resources and workloads in lists, with a switch that makes list
  calls fail, and a client on it; the example runs below use them. A write puts the
  resource in front of the stored ones, and a read returns the first stored under a key.
\<close>

record FakeStore =
  resources :: "(NamespacedName \<times> AuthProxyWorkload) list"
  objects :: "Workload list"
  listFails :: bool

definition fakeReconciler :: "FakeStore Reconciler" where
  "fakeReconciler =
     \<lparr>Get = (\<lambda>st key. case map_of (resources st) key of
                None \<Rightarrow> Inl (StatusError ''NotFound'' 404 ''not found'')
              | Some x \<Rightarrow> Inr x),
      GetObject = (\<lambda>st key wl.
              case find (\<lambda>x. objKind x = objKind wl \<and> objNamespace x = fst key \<and>
                             objName x = snd key) (objects st) of
                None \<Rightarrow> Inl (StatusError ''NotFound'' 404 ''not found'')
              | Some x \<Rightarrow> Inr x),
      ListObjects = (\<lambda>st wl ns sel.
              if listFails st then Inl (PlainError ''timeout'')
              else Inr (wl\<lparr>Workloads :=
                     filter (\<lambda>x. objKind x = listKind wl \<and> objNamespace x = ns)
                       (objects st)\<rparr>)),
      Update = (\<lambda>st x.
              (st\<lparr>resources := ((metaNamespace x, metaName x), x) # resources st\<rparr>, None)),
      StatusPatch = (\<lambda>st x orig.
              (st\<lparr>resources := ((metaNamespace x, metaName x), x) # resources st\<rparr>, None)),
      WorkloadForKind = (\<lambda>kind.
              if kind = ''Deployment''
              then Inr \<lparr>objKind = ''Deployment'', objVersion = ''apps/v1'',
                        objNamespace = [], objName = []\<rparr>
              else Inl (PlainError ''unknown kind'')),
      WorkloadListForKind = (\<lambda>kind.
              if kind = ''Deployment''
              then Inr \<lparr>listKind = ''Deployment'', Workloads = []\<rparr>
              else Inl (PlainError ''unknown kind'')),
      LabelsSelector = (\<lambda>sel. Inr (selSelector sel)),
      ParseKindArg = (\<lambda>kind. takeWhile (\<lambda>c. c \<noteq> CHR ''.'') kind),
      AnnotationPrefix = ''csql''\<rparr>"

definition webDeployment :: Workload where
  "webDeployment =
     \<lparr>objKind = ''Deployment'', objVersion = ''apps/v1'', objNamespace = ''default'',
      objName = ''web''\<rparr>"

definition byLabel :: WorkloadSelectorSpec where
  "byLabel = \<lparr>selKind = ''Deployment'', selNamespace = [], selName = [],
              selSelector = ''app=web''\<rparr>"

definition byName :: WorkloadSelectorSpec where
  "byName = \<lparr>selKind = ''Deployment'', selNamespace = [], selName = ''db'',
             selSelector = []\<rparr>"

text \<open>A resource under deletion that still carries the finalizer of the controller.\<close>

definition deletedResource :: AuthProxyWorkload where
  "deletedResource =
     \<lparr>metaNamespace = ''default'', metaName = ''proxy'', Generation = 2,
      DeletionTimestamp = Some 90,
      Finalizers = [''csql/AuthProxyWorkload-finalizer''],
      SpecWorkload = byLabel, StatusConditions = [], StatusWorkloadStatus = []\<rparr>"

text \<open>A resource that selects the workload named \<open>db\<close>, which the store does not hold.\<close>

definition namedResource :: AuthProxyWorkload where
  "namedResource =
     \<lparr>metaNamespace = ''default'', metaName = ''proxy'', Generation = 1,
      DeletionTimestamp = None,
      Finalizers = [''csql/AuthProxyWorkload-finalizer''],
      SpecWorkload = byName, StatusConditions = [], StatusWorkloadStatus = []\<rparr>"

definition exampleStore :: "AuthProxyWorkload \<Rightarrow> bool \<Rightarrow> FakeStore" where
  "exampleStore resource fails =
     \<lparr>resources = [((''default'', ''proxy''), resource)], objects = [webDeployment],
      listFails = fails\<rparr>"

definition emptyStore :: FakeStore where
  "emptyStore = \<lparr>resources = [], objects = [], listFails = False\<rparr>"

definition exampleClock :: "nat \<Rightarrow> Time" where
  "exampleClock n = 100 + n"

definition exampleWorld :: "FakeStore \<Rightarrow> recentlyDeletedCache \<Rightarrow> FakeStore World" where
  "exampleWorld st tracker =
     \<lparr>store = st, calls = [], recentlyDeleted = tracker, clock = exampleClock, ticks = 0\<rparr>"

text \<open>
  An entry of the workload status list that records the workload \<open>wl\<close> with the single
  condition \<open>WorkloadUpToDate = True\<close>.
\<close>

definition markedUpToDate :: "Workload \<Rightarrow> WorkloadStatus \<Rightarrow> bool" where
  "markedUpToDate wl s =
     (statusKey s = statusKey (newStatus wl) \<and>
      map Type (Conditions s) = [ConditionWorkloadUpToDate] \<and>
      map Status (Conditions s) = [ConditionTrue])"

text \<open>The calls that read a workload: a point read or a list call.\<close>

fun isGetObject :: "call \<Rightarrow> bool" where
  "isGetObject (CallGetObject _ _) = True"
| "isGetObject _ = False"

fun isList :: "call \<Rightarrow> bool" where
  "isList (CallList _ _ _) = True"
| "isList _ = False"

section \<open>Properties of the status and condition merger\<close>

subsection \<open>The loop of \<open>replaceStatus\<close> as a map\<close>

lemma replaceStatus_loop_map:
  "replaceStatus_loop ss u b =
     (map (\<lambda>s. if statusKey s = statusKey u then u else s) ss,
      b \<or> statusKey u \<in> set (map statusKey ss))"
  by (induction ss arbitrary: b) (auto simp: statusKey_def)

lemma map_replace_absent:
  "statusKey u \<notin> set (map statusKey ss) \<Longrightarrow>
   map (\<lambda>s. if statusKey s = statusKey u then u else s) ss = ss"
  by (induction ss) auto

lemma replaceStatus_map:
  "replaceStatus ss u =
     (if statusKey u \<in> set (map statusKey ss)
      then map (\<lambda>s. if statusKey s = statusKey u then u else s) ss
      else ss @ [u])"
  by (simp add: replaceStatus_def replaceStatus_loop_map map_replace_absent)

lemma map_replace_keys:
  "map statusKey (map (\<lambda>s. if statusKey s = statusKey u then u else s) ss) = map statusKey ss"
  by (induction ss) auto

lemma replaceStatus_keys:
  "map statusKey (replaceStatus ss u) =
     (if statusKey u \<in> set (map statusKey ss) then map statusKey ss
      else map statusKey ss @ [statusKey u])"
  unfolding replaceStatus_map using map_replace_keys [of u ss] by simp

lemma key_at_index:
  "i < length ss \<Longrightarrow> statusKey (ss ! i) = k \<Longrightarrow> k \<in> set (map statusKey ss)"
  by (metis length_map nth_map nth_mem)

lemma map_replace_update:
  "distinct (map statusKey ss) \<Longrightarrow> i < length ss \<Longrightarrow> statusKey (ss ! i) = statusKey u \<Longrightarrow>
   map (\<lambda>s. if statusKey s = statusKey u then u else s) ss = ss[i := u]"
proof (induction ss arbitrary: i)
  case Nil
  then show ?case by simp
next
  case (Cons s ss)
  show ?case
  proof (cases i)
    case 0
    with Cons.prems have k: "statusKey s = statusKey u" by simp
    with Cons.prems have "statusKey u \<notin> set (map statusKey ss)" by simp
    then have "map (\<lambda>s. if statusKey s = statusKey u then u else s) ss = ss"
      by (rule map_replace_absent)
    with 0 k show ?thesis by simp
  next
    case (Suc j)
    with Cons.prems have j: "j < length ss" "statusKey (ss ! j) = statusKey u"
      and d: "distinct (map statusKey ss)"
      by simp_all
    from j have "statusKey u \<in> set (map statusKey ss)"
      by (rule key_at_index)
    with Cons.prems have "statusKey s \<noteq> statusKey u" by auto
    with Suc Cons.IH [OF d j] show ?thesis by simp
  qed
qed

subsection \<open>What \<open>replaceCondition\<close> stores\<close>

lemma findCondition_replaceCondition:
  "map_option LastTransitionTime (findCondition (replaceCondition now conds newC) (Type newC)) =
     Some (case findCondition conds (Type newC) of
             None \<Rightarrow> now
           | Some old \<Rightarrow> if Status old = Status newC \<and> \<not> IsZero (LastTransitionTime old)
                         then LastTransitionTime old else now)"
  by (induction conds) auto

lemma replaceCondition_count:
  "count_list (map Type (replaceCondition now conds newC)) (Type newC) =
     max 1 (count_list (map Type conds) (Type newC))"
  by (induction conds) auto

lemma replaceCondition_length:
  "length (replaceCondition now conds newC) =
     (if findCondition conds (Type newC) = None then Suc (length conds) else length conds)"
  by (induction conds) auto

lemma replaceCondition_nth:
  "i < length conds \<Longrightarrow> Type (conds ! i) \<noteq> Type newC \<Longrightarrow>
   replaceCondition now conds newC ! i = conds ! i"
proof (induction conds arbitrary: i)
  case Nil
  then show ?case by simp
next
  case (Cons c conds)
  then show ?case by (cases i) auto
qed

section \<open>Properties of the reconcile loop\<close>

subsection \<open>The calls of the workload lookup\<close>

lemma issued_append: "calls w' = calls w @ xs \<Longrightarrow> issued w w' = xs"
  by (simp add: issued_def)

lemma loadByName_world:
  "snd (loadByName r w sel ns) = w\<lparr>calls := calls w @
     (case WorkloadForKind r (selKind sel) of Inl _ \<Rightarrow> []
      | Inr wl \<Rightarrow> [CallGetObject (ns, selName sel) wl])\<rparr>"
  by (simp add: loadByName_def issue_def Let_def split: sum.splits)

lemma loadByLabelSelector_world:
  "snd (loadByLabelSelector r w sel ns) = w\<lparr>calls := calls w @
     (case LabelsSelector r sel of Inl _ \<Rightarrow> []
      | Inr s \<Rightarrow> (case WorkloadListForKind r (ParseKindArg r (selKind sel)) of
                    Inl _ \<Rightarrow> [] | Inr wl \<Rightarrow> [CallList wl ns s]))\<rparr>"
  by (simp add: loadByLabelSelector_def issue_def Let_def split: sum.splits)

lemma loadByName_result:
  "store w' = store w \<Longrightarrow> fst (loadByName r w' sel ns) = fst (loadByName r w sel ns)"
  by (simp add: loadByName_def issue_def Let_def split: sum.splits)

lemma loadByLabelSelector_result:
  "store w' = store w \<Longrightarrow>
   fst (loadByLabelSelector r w' sel ns) = fst (loadByLabelSelector r w sel ns)"
  by (simp add: loadByLabelSelector_def issue_def Let_def split: sum.splits)

lemma listWorkloads_result:
  "store w' = store w \<Longrightarrow> fst (listWorkloads r w' sel ns) = fst (listWorkloads r w sel ns)"
  using loadByName_result [of w' w r sel] loadByLabelSelector_result [of w' w r sel]
  by (simp add: listWorkloads_def Let_def)

text \<open>The calls that \<open>listWorkloads\<close> issues: none, one point read or one list call.\<close>

lemma listWorkloads_issued:
  "issued w (snd (listWorkloads r w sel ns)) =
     (let ns' = (if selNamespace sel \<noteq> [] then selNamespace sel else ns) in
      if selName sel \<noteq> [] then
        (case WorkloadForKind r (selKind sel) of Inl _ \<Rightarrow> []
         | Inr wl \<Rightarrow> [CallGetObject (ns', selName sel) wl])
      else
        (case LabelsSelector r sel of Inl _ \<Rightarrow> []
         | Inr s \<Rightarrow> (case WorkloadListForKind r (ParseKindArg r (selKind sel)) of
                    Inl _ \<Rightarrow> [] | Inr wl \<Rightarrow> [CallList wl ns' s])))"
  by (simp add: listWorkloads_def Let_def issued_def loadByName_world loadByLabelSelector_world)

lemma listWorkloads_issued_indep:
  "issued w' (snd (listWorkloads r w' sel ns)) = issued w (snd (listWorkloads r w sel ns))"
  by (simp add: listWorkloads_issued)

lemma listWorkloads_world:
  "snd (listWorkloads r w sel ns) =
     w\<lparr>calls := calls w @ issued w (snd (listWorkloads r w sel ns))\<rparr>"
  by (simp add: listWorkloads_def Let_def issued_def loadByName_world loadByLabelSelector_world)

lemma listWorkloads_reads:
  "filter isWrite (issued w (snd (listWorkloads r w sel ns))) = []"
  by (simp add: listWorkloads_issued Let_def split: sum.splits)

lemma listWorkloads_length:
  "length (issued w (snd (listWorkloads r w sel ns))) \<le> 1"
  by (simp add: listWorkloads_issued Let_def split: sum.splits)

lemma loop_world:
  "snd (updateWorkloadStatus_loop m resource w) = w\<lparr>ticks := ticks w + length m\<rparr>"
  by (induction m arbitrary: resource w) (simp_all add: Now_def Let_def)

lemma loop_cong:
  "clock w' = clock w \<Longrightarrow> ticks w' = ticks w \<Longrightarrow>
   fst (updateWorkloadStatus_loop m resource w') = fst (updateWorkloadStatus_loop m resource w)"
proof (induction m arbitrary: resource w w')
  case Nil
  show ?case by simp
next
  case (Cons wl m)
  have eq: "clock w' (ticks w') = clock w (ticks w)"
    using Cons.prems by simp
  have step: "\<And>res. fst (updateWorkloadStatus_loop m res (w'\<lparr>ticks := Suc (ticks w')\<rparr>)) =
                    fst (updateWorkloadStatus_loop m res (w\<lparr>ticks := Suc (ticks w)\<rparr>))"
    by (rule Cons.IH) (simp_all add: Cons.prems)
  show ?case
    by (simp only: updateWorkloadStatus_loop.simps Now_def Let_def prod.case eq step)
qed

lemma loop_frame:
  "(fst (updateWorkloadStatus_loop m resource w))\<lparr>StatusWorkloadStatus := x\<rparr> =
     resource\<lparr>StatusWorkloadStatus := x\<rparr>"
  by (induction m arbitrary: resource w) (simp_all add: Now_def Let_def)

lemma loop_Finalizers:
  "Finalizers (fst (updateWorkloadStatus_loop m resource w)) = Finalizers resource"
  by (induction m arbitrary: resource w) (simp_all add: Now_def Let_def)

lemma loop_StatusConditions:
  "StatusConditions (fst (updateWorkloadStatus_loop m resource w)) = StatusConditions resource"
  by (induction m arbitrary: resource w) (simp_all add: Now_def Let_def)

text \<open>\<open>updateWorkloadStatus\<close>, component by component.\<close>

lemma updateWorkloadStatus_eq:
  "updateWorkloadStatus r w resource =
     (fst (listWorkloads r w (SpecWorkload resource) (metaNamespace resource)),
      (case fst (listWorkloads r w (SpecWorkload resource) (metaNamespace resource)) of
         Inl _ \<Rightarrow> resource
       | Inr m \<Rightarrow> fst (updateWorkloadStatus_loop m resource w)),
      w\<lparr>calls := calls w @
           issued w (snd (listWorkloads r w (SpecWorkload resource) (metaNamespace resource))),
        ticks := ticks w +
           (case fst (listWorkloads r w (SpecWorkload resource) (metaNamespace resource)) of
              Inl _ \<Rightarrow> 0 | Inr m \<Rightarrow> length m)\<rparr>)"
proof -
  let ?lw = "listWorkloads r w (SpecWorkload resource) (metaNamespace resource)"
  define xs where "xs = issued w (snd ?lw)"
  define res where "res = fst ?lw"
  have "snd ?lw = w\<lparr>calls := calls w @ xs\<rparr>"
    unfolding xs_def by (rule listWorkloads_world)
  then have lw: "?lw = (res, w\<lparr>calls := calls w @ xs\<rparr>)"
    unfolding res_def by (metis prod.collapse)
  have main: "updateWorkloadStatus r w resource =
     (res,
      (case res of Inl _ \<Rightarrow> resource | Inr m \<Rightarrow> fst (updateWorkloadStatus_loop m resource w)),
      w\<lparr>calls := calls w @ xs,
        ticks := ticks w + (case res of Inl _ \<Rightarrow> 0 | Inr m \<Rightarrow> length m)\<rparr>)"
  proof (cases res)
    case (Inl err)
    with lw show ?thesis
      by (simp add: updateWorkloadStatus_def)
  next
    case (Inr m)
    have "fst (updateWorkloadStatus_loop m resource (w\<lparr>calls := calls w @ xs\<rparr>)) =
        fst (updateWorkloadStatus_loop m resource w)"
      by (rule loop_cong) simp_all
    then have "updateWorkloadStatus_loop m resource (w\<lparr>calls := calls w @ xs\<rparr>) =
        (fst (updateWorkloadStatus_loop m resource w),
         w\<lparr>calls := calls w @ xs, ticks := ticks w + length m\<rparr>)"
      using loop_world [of m resource "w\<lparr>calls := calls w @ xs\<rparr>"]
      by (simp add: prod_eq_iff)
    then show ?thesis
      using Inr lw by (simp add: updateWorkloadStatus_def)
  qed
  show ?thesis
    using main unfolding res_def xs_def .
qed

subsection \<open>The calls of the reconcile loop\<close>

lemma issued_trans:
  "calls w1 = calls w @ xs \<Longrightarrow> calls w2 = calls w1 @ ys \<Longrightarrow> issued w w2 = xs @ ys"
  by (simp add: issued_def)

lemma ContainsFinalizer_loop:
  "ContainsFinalizer (fst (updateWorkloadStatus_loop m resource w)) f =
     ContainsFinalizer resource f"
  by (simp add: ContainsFinalizer_def loop_Finalizers)

text \<open>The calls and the result of \<open>doDelete\<close>.\<close>

lemma doDelete_calls:
  "calls (snd (doDelete r w resource)) =
     calls w @ issued w (snd (listWorkloads r w (SpecWorkload resource) (metaNamespace resource))) @
     (case fst (listWorkloads r w (SpecWorkload resource) (metaNamespace resource)) of
        Inl _ \<Rightarrow> []
      | Inr m \<Rightarrow>
          if ContainsFinalizer resource (finalizerName r)
          then [CallUpdate (RemoveFinalizer (fst (updateWorkloadStatus_loop m resource w))
                  (finalizerName r))]
          else [])"
  by (simp add: doDelete_def updateWorkloadStatus_eq ContainsFinalizer_loop issue_def Let_def
      split: sum.splits prod.splits option.splits)

lemma doDelete_result:
  "fst (doDelete r w resource) =
     (case fst (listWorkloads r w (SpecWorkload resource) (metaNamespace resource)) of
        Inl err \<Rightarrow> (requeueNow, Some err)
      | Inr m \<Rightarrow>
          if ContainsFinalizer resource (finalizerName r)
          then (noRequeue,
                snd (Update r (store w)
                  (RemoveFinalizer (fst (updateWorkloadStatus_loop m resource w))
                     (finalizerName r))))
          else (noRequeue, None))"
  by (simp add: doDelete_def updateWorkloadStatus_eq ContainsFinalizer_loop issue_def Let_def
      split: sum.splits prod.splits option.splits)

lemma doDelete_tracker:
  "recentlyDeleted (snd (doDelete r w resource)) = recentlyDeleted w"
  by (simp add: doDelete_def updateWorkloadStatus_eq issue_def Let_def
      split: sum.splits prod.splits option.splits)

text \<open>The calls of the create and update path.\<close>

lemma patchAuthProxyWorkloadStatus_calls:
  "calls (snd (patchAuthProxyWorkloadStatus r w resource orig)) =
     calls w @ CallStatusPatch resource orig #
     (case snd (StatusPatch r (store w) resource orig) of
        Some _ \<Rightarrow> []
      | None \<Rightarrow> [CallGet (metaNamespace resource, metaName resource)])"
  by (simp add: patchAuthProxyWorkloadStatus_def issue_def Let_def
      split: sum.splits prod.splits option.splits)

lemma reconcileResult_eq:
  "reconcileResult r w resource orig reason message =
     ((noRequeue,
       fst (patchAuthProxyWorkloadStatus r (w\<lparr>ticks := Suc (ticks w)\<rparr>)
         (resource\<lparr>StatusConditions :=
            replaceCondition (clock w (ticks w)) (StatusConditions resource)
              \<lparr>Type = ConditionUpToDate, Status = ConditionTrue,
               ObservedGeneration = Generation resource, Reason = reason,
               Message = message, LastTransitionTime = 0\<rparr>\<rparr>) orig)),
      snd (patchAuthProxyWorkloadStatus r (w\<lparr>ticks := Suc (ticks w)\<rparr>)
         (resource\<lparr>StatusConditions :=
            replaceCondition (clock w (ticks w)) (StatusConditions resource)
              \<lparr>Type = ConditionUpToDate, Status = ConditionTrue,
               ObservedGeneration = Generation resource, Reason = reason,
               Message = message, LastTransitionTime = 0\<rparr>\<rparr>) orig))"
  by (simp add: reconcileResult_def Now_def Let_def split: prod.splits option.splits)

lemma reconcileResult_prefix:
  "calls (snd (reconcileResult r w resource orig reason message)) =
     calls w @ issued w (snd (reconcileResult r w resource orig reason message))"
  by (simp add: reconcileResult_eq patchAuthProxyWorkloadStatus_calls issued_def
      split: option.splits)

lemma applyFinalizer_calls:
  "calls (snd (applyFinalizer r w resource)) =
     calls w @ [CallUpdate (AddFinalizer resource (finalizerName r))]"
  by (simp add: applyFinalizer_def issue_def Let_def split: prod.splits option.splits)


lemma writes_trans:
  "calls w1 = calls w @ xs \<Longrightarrow> calls w2 = calls w1 @ issued w1 w2 \<Longrightarrow>
   calls w2 = calls w @ issued w w2 \<and>
   filter isWrite (issued w w2) = filter isWrite xs @ filter isWrite (issued w1 w2)"
proof -
  assume a: "calls w1 = calls w @ xs" and b: "calls w2 = calls w1 @ issued w1 w2"
  define ys where "ys = issued w1 w2"
  from a b have c: "calls w2 = calls w @ xs @ ys"
    by (simp add: ys_def)
  then have "issued w w2 = xs @ ys"
    by (simp add: issued_def)
  with c show ?thesis
    by (simp add: ys_def)
qed

lemma applyFinalizer_prefix:
  "calls (snd (applyFinalizer r w resource)) =
     calls w @ issued w (snd (applyFinalizer r w resource))"
  by (simp add: applyFinalizer_calls issued_def)

lemma applyFinalizer_writes:
  "filter isWrite (issued w (snd (applyFinalizer r w resource))) =
     [CallUpdate (AddFinalizer resource (finalizerName r))]"
  by (simp add: applyFinalizer_calls issued_def)

lemma reconcileResult_issued_writes:
  "length (filter isWrite (issued w (snd (reconcileResult r w resource orig reason message))))
     = 1"
  by (simp add: reconcileResult_eq patchAuthProxyWorkloadStatus_calls issued_def
      split: option.splits)

text \<open>\<open>doCreateUpdate\<close> once the finalizer is there and the lookup has succeeded.\<close>

lemma doCreateUpdate_found:
  assumes "ContainsFinalizer resource (finalizerName r)"
    and "fst (listWorkloads r w (SpecWorkload resource) (metaNamespace resource)) = Inr m"
  shows "doCreateUpdate r w resource =
     reconcileResult r
       (w\<lparr>calls := calls w @
            issued w (snd (listWorkloads r w (SpecWorkload resource) (metaNamespace resource))),
          ticks := ticks w + length m\<rparr>)
       (fst (updateWorkloadStatus_loop m resource w)) resource
       (if length m = 0 then ReasonNoWorkloadsFound else ReasonFinishedReconcile)
       (if length m = 0 then ''No workload updates needed''
        else ''Reconciled '' @ Sprintf_d (length m) @ '' matching workloads complete'')"
  using assms by (simp add: doCreateUpdate_def updateWorkloadStatus_eq Let_def)

lemma doCreateUpdate_failed:
  assumes "ContainsFinalizer resource (finalizerName r)"
    and "fst (listWorkloads r w (SpecWorkload resource) (metaNamespace resource)) = Inl err"
  shows "doCreateUpdate r w resource =
     ((requeueWithDelay, Some err),
      w\<lparr>calls := calls w @
           issued w (snd (listWorkloads r w (SpecWorkload resource) (metaNamespace resource)))\<rparr>)"
  using assms by (simp add: doCreateUpdate_def updateWorkloadStatus_eq Let_def)

lemma doCreateUpdate_new:
  assumes "\<not> ContainsFinalizer resource (finalizerName r)"
  shows "doCreateUpdate r w resource = applyFinalizer r w resource"
  using assms by (simp add: doCreateUpdate_def Let_def)

lemma doCreateUpdate_prefix_writes:
  "calls (snd (doCreateUpdate r w resource)) =
     calls w @ issued w (snd (doCreateUpdate r w resource)) \<and>
   length (filter isWrite (issued w (snd (doCreateUpdate r w resource)))) \<le> 1"
proof (cases "ContainsFinalizer resource (finalizerName r)")
  case False
  then show ?thesis
    by (simp add: doCreateUpdate_new applyFinalizer_writes applyFinalizer_prefix [symmetric])
next
  case True
  let ?lw = "listWorkloads r w (SpecWorkload resource) (metaNamespace resource)"
  show ?thesis
  proof (cases "fst ?lw")
    case (Inl err)
    with True show ?thesis
      by (simp add: doCreateUpdate_failed issued_def listWorkloads_reads [unfolded issued_def])
  next
    case (Inr m)
    let ?w1 = "w\<lparr>calls := calls w @ issued w (snd ?lw), ticks := ticks w + length m\<rparr>"
    let ?rr = "reconcileResult r ?w1 (fst (updateWorkloadStatus_loop m resource w)) resource
       (if length m = 0 then ReasonNoWorkloadsFound else ReasonFinishedReconcile)
       (if length m = 0 then ''No workload updates needed''
        else ''Reconciled '' @ Sprintf_d (length m) @ '' matching workloads complete'')"
    have eq: "doCreateUpdate r w resource = ?rr"
      using True Inr by (rule doCreateUpdate_found)
    have c1: "calls ?w1 = calls w @ issued w (snd ?lw)"
      by simp
    have c2: "calls (snd ?rr) = calls ?w1 @ issued ?w1 (snd ?rr)"
      by (rule reconcileResult_prefix)
    from writes_trans [OF c1 c2] reconcileResult_issued_writes [of ?w1 r]
    show ?thesis
      unfolding eq by (simp add: listWorkloads_reads)
  qed
qed

lemma doDelete_prefix:
  "calls (snd (doDelete r w resource)) = calls w @ issued w (snd (doDelete r w resource))"
  by (simp add: doDelete_calls issued_def)

lemma doDelete_writes:
  "length (filter isWrite (issued w (snd (doDelete r w resource)))) \<le> 1"
  by (simp add: doDelete_calls issued_def listWorkloads_reads [unfolded issued_def]
      split: sum.splits)

lemma Reconcile_issued:
  "issued w (snd (Reconcile r w req)) = CallGet req #
     (case Get r (store w) req of
        Inl err \<Rightarrow> []
      | Inr resource \<Rightarrow>
          if \<not> IsZeroPtr (DeletionTimestamp resource) then
            issued
              ((issue (CallGet req) w)\<lparr>recentlyDeleted :=
                 recentlyDeletedCache_set (recentlyDeleted w) req True\<rparr>)
              (snd (doDelete r
                ((issue (CallGet req) w)\<lparr>recentlyDeleted :=
                   recentlyDeletedCache_set (recentlyDeleted w) req True\<rparr>) resource))
          else
            issued
              ((issue (CallGet req) w)\<lparr>recentlyDeleted :=
                 recentlyDeletedCache_set (recentlyDeleted w) req False\<rparr>)
              (snd (doCreateUpdate r
                ((issue (CallGet req) w)\<lparr>recentlyDeleted :=
                   recentlyDeletedCache_set (recentlyDeleted w) req False\<rparr>) resource)))"
proof (cases "Get r (store w) req")
  case (Inl err)
  then show ?thesis
    by (simp add: Reconcile_def issue_def issued_def Let_def)
next
  case (Inr resource)
  show ?thesis
  proof (cases "IsZeroPtr (DeletionTimestamp resource)")
    case True
    let ?w1 = "(issue (CallGet req) w)\<lparr>recentlyDeleted :=
                 recentlyDeletedCache_set (recentlyDeleted w) req False\<rparr>"
    have "calls ?w1 = calls w @ [CallGet req]"
      by (simp add: issue_def)
    then have "issued w (snd (doCreateUpdate r ?w1 resource)) =
        [CallGet req] @ issued ?w1 (snd (doCreateUpdate r ?w1 resource))"
      using conjunct1 [OF doCreateUpdate_prefix_writes [of r ?w1 resource]]
      by (rule issued_trans)
    with Inr True show ?thesis
      by (simp add: Reconcile_def Let_def issue_def)
  next
    case False
    let ?w1 = "(issue (CallGet req) w)\<lparr>recentlyDeleted :=
                 recentlyDeletedCache_set (recentlyDeleted w) req True\<rparr>"
    have "calls ?w1 = calls w @ [CallGet req]"
      by (simp add: issue_def)
    then have "issued w (snd (doDelete r ?w1 resource)) =
        [CallGet req] @ issued ?w1 (snd (doDelete r ?w1 resource))"
      using doDelete_prefix [of r ?w1 resource] by (rule issued_trans)
    with Inr False show ?thesis
      by (simp add: Reconcile_def Let_def issue_def)
  qed
qed

subsection \<open>The entries written by the loop of \<open>updateWorkloadStatus\<close>\<close>

lemma replaceStatus_member: "u \<in> set (replaceStatus ss u)"
proof (cases "statusKey u \<in> set (map statusKey ss)")
  case True
  then obtain s where "s \<in> set ss" "statusKey s = statusKey u"
    by auto
  then have "u \<in> (\<lambda>s. if statusKey s = statusKey u then u else s) ` set ss"
    by force
  with True show ?thesis
    by (simp add: replaceStatus_map)
next
  case False
  then show ?thesis
    by (simp add: replaceStatus_map)
qed

lemma replaceStatus_keeps_mark:
  assumes "s \<in> set ss" and "markedUpToDate wl s"
    and "statusKey u = statusKey s \<Longrightarrow> markedUpToDate wl u"
  shows "\<exists>s'\<in>set (replaceStatus ss u). markedUpToDate wl s'"
proof (cases "statusKey s = statusKey u")
  case True
  with assms(3) have "markedUpToDate wl u" by simp
  then show ?thesis
    using replaceStatus_member [of u ss] by blast
next
  case False
  with assms(1) have "s \<in> set (replaceStatus ss u)"
    by (auto simp: replaceStatus_map)
  with assms(2) show ?thesis by blast
qed

lemma marked_entry:
  "markedUpToDate wl
     ((newStatus wl)\<lparr>Conditions := replaceCondition now (Conditions (newStatus wl))
         \<lparr>Type = ConditionWorkloadUpToDate, Status = ConditionTrue,
          ObservedGeneration = g, Reason = ReasonUpToDate,
          Message = ''No update needed for this workload'', LastTransitionTime = 0\<rparr>\<rparr>)"
  by (simp add: markedUpToDate_def newStatus_def statusKey_def)

lemma marked_same_key:
  "markedUpToDate wl' u \<Longrightarrow> statusKey u = statusKey s \<Longrightarrow> markedUpToDate wl s \<Longrightarrow>
   markedUpToDate wl u"
  by (simp add: markedUpToDate_def)

lemma loop_keeps_mark:
  "\<exists>s\<in>set (StatusWorkloadStatus resource). markedUpToDate wl s \<Longrightarrow>
   \<exists>s\<in>set (StatusWorkloadStatus (fst (updateWorkloadStatus_loop m resource w))).
      markedUpToDate wl s"
proof (induction m arbitrary: resource w)
  case Nil
  then show ?case by simp
next
  case (Cons wl' m)
  let ?u = "(newStatus wl')\<lparr>Conditions := replaceCondition (clock w (ticks w))
         (Conditions (newStatus wl'))
         \<lparr>Type = ConditionWorkloadUpToDate, Status = ConditionTrue,
          ObservedGeneration = Generation resource, Reason = ReasonUpToDate,
          Message = ''No update needed for this workload'', LastTransitionTime = 0\<rparr>\<rparr>"
  let ?r1 = "resource\<lparr>StatusWorkloadStatus := replaceStatus (StatusWorkloadStatus resource) ?u\<rparr>"
  from Cons.prems obtain s where s: "s \<in> set (StatusWorkloadStatus resource)"
    "markedUpToDate wl s" by blast
  have u: "markedUpToDate wl' ?u" by (rule marked_entry)
  have "\<exists>s'\<in>set (replaceStatus (StatusWorkloadStatus resource) ?u). markedUpToDate wl s'"
    using s(1) s(2) marked_same_key [OF u _ s(2)] by (rule replaceStatus_keeps_mark)
  then have "\<exists>s\<in>set (StatusWorkloadStatus ?r1). markedUpToDate wl s"
    by simp
  then have "\<exists>s\<in>set (StatusWorkloadStatus
       (fst (updateWorkloadStatus_loop m ?r1 (w\<lparr>ticks := Suc (ticks w)\<rparr>)))).
       markedUpToDate wl s"
    by (rule Cons.IH)
  then show ?case
    by (simp add: Now_def Let_def)
qed

lemma loop_marks:
  "wl \<in> set m \<Longrightarrow>
   \<exists>s\<in>set (StatusWorkloadStatus (fst (updateWorkloadStatus_loop m resource w))).
      markedUpToDate wl s"
proof (induction m arbitrary: resource w)
  case Nil
  then show ?case by simp
next
  case (Cons wl' m)
  let ?u = "(newStatus wl')\<lparr>Conditions := replaceCondition (clock w (ticks w))
         (Conditions (newStatus wl'))
         \<lparr>Type = ConditionWorkloadUpToDate, Status = ConditionTrue,
          ObservedGeneration = Generation resource, Reason = ReasonUpToDate,
          Message = ''No update needed for this workload'', LastTransitionTime = 0\<rparr>\<rparr>"
  let ?r1 = "resource\<lparr>StatusWorkloadStatus := replaceStatus (StatusWorkloadStatus resource) ?u\<rparr>"
  let ?w1 = "w\<lparr>ticks := Suc (ticks w)\<rparr>"
  have step: "fst (updateWorkloadStatus_loop (wl' # m) resource w) =
      fst (updateWorkloadStatus_loop m ?r1 ?w1)"
    by (simp add: Now_def Let_def)
  show ?case
  proof (cases "wl = wl'")
    case True
    have "markedUpToDate wl' ?u" by (rule marked_entry)
    moreover have "?u \<in> set (StatusWorkloadStatus ?r1)"
      by (simp add: replaceStatus_member)
    ultimately have "\<exists>s\<in>set (StatusWorkloadStatus ?r1). markedUpToDate wl s"
      using True by blast
    then have "\<exists>s\<in>set (StatusWorkloadStatus (fst (updateWorkloadStatus_loop m ?r1 ?w1))).
        markedUpToDate wl s"
      by (rule loop_keeps_mark)
    with step show ?thesis by simp
  next
    case False
    with Cons.prems have "wl \<in> set m" by simp
    then have "\<exists>s\<in>set (StatusWorkloadStatus (fst (updateWorkloadStatus_loop m ?r1 ?w1))).
        markedUpToDate wl s"
      by (rule Cons.IH)
    with step show ?thesis by simp
  qed
qed

subsection \<open>The tracker, the kinds of calls and the finalizer\<close>

text \<open>
  The errors that \<open>IsNotFound\<close> accepts: a status error is not-found by its reason, or
  by the code 404 when its reason is not a known one, and an error that wraps another is
  not-found when the wrapped one is.
\<close>

lemma IsNotFound_StatusError:
  "IsNotFound (StatusError reason code m) =
     (reason = ''NotFound'' \<or> (reason \<notin> set knownReasons \<and> code = 404))"
  by (simp add: IsNotFound_def)

lemma IsNotFound_WrappedError: "IsNotFound (WrappedError m cause) = IsNotFound cause"
  by (simp add: IsNotFound_def)

lemma IsNotFound_PlainError: "\<not> IsNotFound (PlainError m)"
  by (simp add: IsNotFound_def)

lemma IsNotFound_unknown_reason_404: "IsNotFound (StatusError [] 404 m)"
  by (simp add: IsNotFound_def knownReasons_def)

text \<open>
  \<open>loadByName\<close> on the two sides of \<open>IsNotFound\<close>: a wrapped status error with code
  404 and no reason gives the empty list, and an error that is not not-found is returned
  in a new error.
\<close>

lemma loadByName_wrapped_404:
  assumes "WorkloadForKind r (selKind sel) = Inr wl"
    and "GetObject r (store w) (ns, selName sel) wl =
           Inl (WrappedError t (StatusError [] 404 m))"
  shows "fst (loadByName r w sel ns) = Inr []"
  using assms by (simp add: loadByName_def Let_def IsNotFound_def knownReasons_def)

lemma loadByName_other_error:
  assumes "WorkloadForKind r (selKind sel) = Inr wl"
    and "GetObject r (store w) (ns, selName sel) wl = Inl err"
    and "\<not> IsNotFound err"
  shows "fst (loadByName r w sel ns) =
           Inl (PlainError (''unable to load resource by name '' @ ns @ ''/'' @ selName sel @
                  '':  '' @ errorText err))"
  using assms by (simp add: loadByName_def Let_def)

lemma tracker_get_set:
  "recentlyDeletedCache_get (recentlyDeletedCache_set c k deleted) k = deleted"
  by (simp add: recentlyDeletedCache_get_def recentlyDeletedCache_set_def Let_def)

lemma listWorkloads_issued_kinds:
  "\<forall>c\<in>set (issued w (snd (listWorkloads r w sel ns))).
     \<not> isStatusPatch c \<and> \<not> isWrite c \<and>
     (if selName sel \<noteq> [] then isGetObject c else isList c)"
  by (auto simp: listWorkloads_issued Let_def split: sum.splits)

lemma RemoveFinalizer_fields:
  "Finalizers (RemoveFinalizer x f) = filter (\<lambda>g. g \<noteq> f) (Finalizers x)"
  "StatusConditions (RemoveFinalizer x f) = StatusConditions x"
  "StatusWorkloadStatus (RemoveFinalizer x f) = StatusWorkloadStatus x"
  by (simp_all add: RemoveFinalizer_def)

lemma Reconcile_deleted:
  assumes "Get r (store w) req = Inr resource"
    and "\<not> IsZeroPtr (DeletionTimestamp resource)"
  shows "Reconcile r w req =
           doDelete r
             ((issue (CallGet req) w)\<lparr>recentlyDeleted :=
                recentlyDeletedCache_set (recentlyDeleted w) req True\<rparr>) resource"
  using assms by (simp add: Reconcile_def Let_def issue_def)

lemma Reconcile_deleted_issued:
  assumes "Get r (store w) req = Inr resource"
    and "\<not> IsZeroPtr (DeletionTimestamp resource)"
  shows "issued w (snd (Reconcile r w req)) =
      CallGet req #
      issued w (snd (listWorkloads r w (SpecWorkload resource) (metaNamespace resource))) @
      (case fst (listWorkloads r w (SpecWorkload resource) (metaNamespace resource)) of
        Inl _ \<Rightarrow> []
      | Inr m \<Rightarrow>
          if ContainsFinalizer resource (finalizerName r)
          then [CallUpdate (RemoveFinalizer (fst (updateWorkloadStatus_loop m resource w))
                  (finalizerName r))]
          else [])"
proof -
  let ?w1 = "(issue (CallGet req) w)\<lparr>recentlyDeleted :=
                recentlyDeletedCache_set (recentlyDeleted w) req True\<rparr>"
  let ?lw1 = "listWorkloads r ?w1 (SpecWorkload resource) (metaNamespace resource)"
  have a: "issued w (snd (Reconcile r w req)) =
      CallGet req # issued ?w1 (snd (doDelete r ?w1 resource))"
    using assms by (simp add: Reconcile_issued)
  have b: "issued ?w1 (snd (doDelete r ?w1 resource)) =
      issued ?w1 (snd ?lw1) @
      (case fst ?lw1 of
        Inl _ \<Rightarrow> []
      | Inr m \<Rightarrow>
          if ContainsFinalizer resource (finalizerName r)
          then [CallUpdate (RemoveFinalizer (fst (updateWorkloadStatus_loop m resource ?w1))
                  (finalizerName r))]
          else [])"
    by (rule issued_append) (simp add: doDelete_calls)
  have c: "fst ?lw1 = fst (listWorkloads r w (SpecWorkload resource) (metaNamespace resource))"
    by (rule listWorkloads_result) (simp add: issue_def)
  have d: "issued ?w1 (snd ?lw1) =
      issued w (snd (listWorkloads r w (SpecWorkload resource) (metaNamespace resource)))"
    by (rule listWorkloads_issued_indep)
  have e: "\<And>m. fst (updateWorkloadStatus_loop m resource ?w1) =
      fst (updateWorkloadStatus_loop m resource w)"
    by (rule loop_cong) (simp_all add: issue_def)
  show ?thesis
    unfolding a b c d e by simp
qed

lemma Reconcile_deleted_result:
  assumes "Get r (store w) req = Inr resource"
    and "\<not> IsZeroPtr (DeletionTimestamp resource)"
  shows "fst (Reconcile r w req) =
     (case fst (listWorkloads r w (SpecWorkload resource) (metaNamespace resource)) of
        Inl err \<Rightarrow> (requeueNow, Some err)
      | Inr m \<Rightarrow>
          if ContainsFinalizer resource (finalizerName r)
          then (noRequeue,
                snd (Update r (store w)
                  (RemoveFinalizer (fst (updateWorkloadStatus_loop m resource w))
                     (finalizerName r))))
          else (noRequeue, None))"
proof -
  let ?w1 = "(issue (CallGet req) w)\<lparr>recentlyDeleted :=
                recentlyDeletedCache_set (recentlyDeleted w) req True\<rparr>"
  let ?lw1 = "listWorkloads r ?w1 (SpecWorkload resource) (metaNamespace resource)"
  have c: "fst ?lw1 = fst (listWorkloads r w (SpecWorkload resource) (metaNamespace resource))"
    by (rule listWorkloads_result) (simp add: issue_def)
  have e: "\<And>m. fst (updateWorkloadStatus_loop m resource ?w1) =
      fst (updateWorkloadStatus_loop m resource w)"
    by (rule loop_cong) (simp_all add: issue_def)
  have s: "store ?w1 = store w"
    by (simp add: issue_def)
  show ?thesis
    unfolding Reconcile_deleted [OF assms] doDelete_result c e s by simp
qed

lemma Reconcile_deleted_tracker:
  assumes "Get r (store w) req = Inr resource"
    and "\<not> IsZeroPtr (DeletionTimestamp resource)"
  shows "recentlyDeletedCache_get (recentlyDeleted (snd (Reconcile r w req))) req"
  unfolding Reconcile_deleted [OF assms] doDelete_tracker
  by (simp add: tracker_get_set)

subsection \<open>Evaluating the example runs\<close>

lemmas example_defs =
  fakeReconciler_def exampleWorld_def exampleStore_def emptyStore_def deletedResource_def
  namedResource_def byLabel_def byName_def webDeployment_def exampleClock_def

section \<open>The claims about the merger\<close>

text \<open>
  C3, as the spec states it: \<open>replaceCondition\<close> changes the stored
  \<open>lastTransitionTime\<close> of a condition type if and only if the status differs from the
  one recorded for that type. The code stamps the time also when the status is the same
  and the recorded timestamp is the zero time: here the list holds \<open>UpToDate = True\<close>
  with no timestamp, the new condition changes only the reason and the message, and the
  stored timestamp changes from 0 to 7.
\<close>

theorem replaceCondition_timestamp_counterexample:
  "findCondition
     [\<lparr>Type = ''UpToDate'', Status = ''True'', ObservedGeneration = 1,
       Reason = ''NoWorkloadsFound'', Message = ''none'', LastTransitionTime = 0\<rparr>]
     ''UpToDate''
   = Some \<lparr>Type = ''UpToDate'', Status = ''True'', ObservedGeneration = 1,
           Reason = ''NoWorkloadsFound'', Message = ''none'', LastTransitionTime = 0\<rparr>
   \<and> replaceCondition 7
       [\<lparr>Type = ''UpToDate'', Status = ''True'', ObservedGeneration = 1,
         Reason = ''NoWorkloadsFound'', Message = ''none'', LastTransitionTime = 0\<rparr>]
       \<lparr>Type = ''UpToDate'', Status = ''True'', ObservedGeneration = 1,
        Reason = ''FinishedReconcile'', Message = ''two'', LastTransitionTime = 0\<rparr>
     = [\<lparr>Type = ''UpToDate'', Status = ''True'', ObservedGeneration = 1,
         Reason = ''FinishedReconcile'', Message = ''two'', LastTransitionTime = 7\<rparr>]"
  by (simp add: IsZero_def)

text \<open>
  C3, amended: for a condition type that the list holds, and a clock reading that differs
  from the recorded timestamp, \<open>replaceCondition\<close> changes the stored
  \<open>lastTransitionTime\<close> if and only if the status differs from the recorded one or
  the recorded timestamp is the zero time. So an edit of the reason or the message alone
  never changes a timestamp that is set.
\<close>

theorem replaceCondition_timestamp:
  assumes "findCondition conds (Type newC) = Some old"
    and "now \<noteq> LastTransitionTime old"
  shows "(map_option LastTransitionTime
            (findCondition (replaceCondition now conds newC) (Type newC))
          \<noteq> Some (LastTransitionTime old))
         \<longleftrightarrow> (Status newC \<noteq> Status old \<or> IsZero (LastTransitionTime old))"
  using assms by (auto simp: findCondition_replaceCondition)

theorem replaceCondition_timestamp_witness:
  "map_option LastTransitionTime
     (findCondition
        (replaceCondition 7
           [\<lparr>Type = ''UpToDate'', Status = ''True'', ObservedGeneration = 1,
             Reason = ''NoWorkloadsFound'', Message = ''none'', LastTransitionTime = 3\<rparr>]
           \<lparr>Type = ''UpToDate'', Status = ''True'', ObservedGeneration = 1,
            Reason = ''FinishedReconcile'', Message = ''two'', LastTransitionTime = 0\<rparr>)
        ''UpToDate'')
   = Some 3"
  using replaceCondition_timestamp
    [of "[\<lparr>Type = ''UpToDate'', Status = ''True'', ObservedGeneration = 1,
           Reason = ''NoWorkloadsFound'', Message = ''none'', LastTransitionTime = 3\<rparr>]"
        "\<lparr>Type = ''UpToDate'', Status = ''True'', ObservedGeneration = 1,
          Reason = ''FinishedReconcile'', Message = ''two'', LastTransitionTime = 0\<rparr>"
        "\<lparr>Type = ''UpToDate'', Status = ''True'', ObservedGeneration = 1,
          Reason = ''NoWorkloadsFound'', Message = ''none'', LastTransitionTime = 3\<rparr>"
        7]
  by (simp add: IsZero_def)

text \<open>
  C6: on a list with at most one entry for each (kind, version, namespace, name),
  \<open>replaceStatus\<close> returns a list with at most one entry for each again; an entry
  with the key of the new one is replaced where it stands, and when there is none the new
  entry is appended at the end.
\<close>

theorem replaceStatus_unique:
  assumes "distinct (map statusKey statuses)"
  shows "distinct (map statusKey (replaceStatus statuses u)) \<and>
    (\<forall>i<length statuses. statusKey (statuses ! i) = statusKey u \<longrightarrow>
        replaceStatus statuses u = statuses[i := u]) \<and>
    (statusKey u \<notin> set (map statusKey statuses) \<longrightarrow>
        replaceStatus statuses u = statuses @ [u])"
proof (intro conjI allI impI)
  show "distinct (map statusKey (replaceStatus statuses u))"
    using assms by (simp add: replaceStatus_keys)
next
  fix i assume i: "i < length statuses" "statusKey (statuses ! i) = statusKey u"
  then have "statusKey u \<in> set (map statusKey statuses)"
    by (rule key_at_index)
  with i assms show "replaceStatus statuses u = statuses[i := u]"
    by (simp add: replaceStatus_map map_replace_update)
next
  assume "statusKey u \<notin> set (map statusKey statuses)"
  then show "replaceStatus statuses u = statuses @ [u]"
    by (simp add: replaceStatus_map)
qed

theorem replaceStatus_unique_witness:
  "distinct (map statusKey
     (replaceStatus
        [\<lparr>Kind = ''Deployment'', Version = ''apps/v1'', Namespace = ''default'',
          Name = ''web'', Conditions = []\<rparr>,
         \<lparr>Kind = ''Deployment'', Version = ''apps/v1'', Namespace = ''default'',
          Name = ''db'', Conditions = []\<rparr>]
        \<lparr>Kind = ''Deployment'', Version = ''apps/v1'', Namespace = ''default'',
         Name = ''db'',
         Conditions = [\<lparr>Type = ''WorkloadUpToDate'', Status = ''True'',
                        ObservedGeneration = 1, Reason = ''UpToDate'', Message = ''ok'',
                        LastTransitionTime = 7\<rparr>]\<rparr>))
   \<and> replaceStatus
        [\<lparr>Kind = ''Deployment'', Version = ''apps/v1'', Namespace = ''default'',
          Name = ''web'', Conditions = []\<rparr>,
         \<lparr>Kind = ''Deployment'', Version = ''apps/v1'', Namespace = ''default'',
          Name = ''db'', Conditions = []\<rparr>]
        \<lparr>Kind = ''Deployment'', Version = ''apps/v1'', Namespace = ''default'',
         Name = ''db'',
         Conditions = [\<lparr>Type = ''WorkloadUpToDate'', Status = ''True'',
                        ObservedGeneration = 1, Reason = ''UpToDate'', Message = ''ok'',
                        LastTransitionTime = 7\<rparr>]\<rparr>
     = [\<lparr>Kind = ''Deployment'', Version = ''apps/v1'', Namespace = ''default'',
          Name = ''web'', Conditions = []\<rparr>,
        \<lparr>Kind = ''Deployment'', Version = ''apps/v1'', Namespace = ''default'',
         Name = ''db'',
         Conditions = [\<lparr>Type = ''WorkloadUpToDate'', Status = ''True'',
                        ObservedGeneration = 1, Reason = ''UpToDate'', Message = ''ok'',
                        LastTransitionTime = 7\<rparr>]\<rparr>]"
proof -
  let ?web = "\<lparr>Kind = ''Deployment'', Version = ''apps/v1'', Namespace = ''default'',
          Name = ''web'', Conditions = []\<rparr>"
  let ?db = "\<lparr>Kind = ''Deployment'', Version = ''apps/v1'', Namespace = ''default'',
          Name = ''db'', Conditions = []\<rparr>"
  let ?u = "\<lparr>Kind = ''Deployment'', Version = ''apps/v1'', Namespace = ''default'',
         Name = ''db'',
         Conditions = [\<lparr>Type = ''WorkloadUpToDate'', Status = ''True'',
                        ObservedGeneration = 1, Reason = ''UpToDate'', Message = ''ok'',
                        LastTransitionTime = 7\<rparr>]\<rparr>"
  have d: "distinct (map statusKey [?web, ?db])"
    by (simp add: statusKey_def)
  have k: "statusKey ([?web, ?db] ! 1) = statusKey ?u"
    by (simp add: statusKey_def)
  note th = replaceStatus_unique [OF d, of ?u]
  from th have a: "distinct (map statusKey (replaceStatus [?web, ?db] ?u))"
    by (rule conjunct1)
  from th have "\<forall>i<length [?web, ?db]. statusKey ([?web, ?db] ! i) = statusKey ?u \<longrightarrow>
      replaceStatus [?web, ?db] ?u = [?web, ?db][i := ?u]"
    by blast
  moreover have "1 < length [?web, ?db]" by simp
  ultimately have "replaceStatus [?web, ?db] ?u = [?web, ?db][1 := ?u]"
    using k by blast
  with a show ?thesis by simp
qed

text \<open>
  C7: applying \<open>replaceCondition\<close> a second time with the same condition gives the list
  of the first application, with the timestamp of the first application kept, whatever
  the clock reads the second time and whatever timestamp the condition carries when it
  is passed again. The first reading of the clock is not the zero time.
\<close>

theorem replaceCondition_idempotent:
  assumes "\<not> IsZero now1"
  shows "replaceCondition now2 (replaceCondition now1 conds newC)
           (newC\<lparr>LastTransitionTime := t\<rparr>) = replaceCondition now1 conds newC"
  using assms by (induction conds) auto

theorem replaceCondition_idempotent_witness:
  "replaceCondition 9
     (replaceCondition 7
        [\<lparr>Type = ''UpToDate'', Status = ''False'', ObservedGeneration = 1,
          Reason = ''Pending'', Message = ''none'', LastTransitionTime = 3\<rparr>]
        \<lparr>Type = ''UpToDate'', Status = ''True'', ObservedGeneration = 2,
         Reason = ''FinishedReconcile'', Message = ''two'', LastTransitionTime = 0\<rparr>)
     \<lparr>Type = ''UpToDate'', Status = ''True'', ObservedGeneration = 2,
      Reason = ''FinishedReconcile'', Message = ''two'', LastTransitionTime = 0\<rparr>
   = [\<lparr>Type = ''UpToDate'', Status = ''True'', ObservedGeneration = 2,
       Reason = ''FinishedReconcile'', Message = ''two'', LastTransitionTime = 7\<rparr>]"
  using replaceCondition_idempotent
    [of 7 9
        "[\<lparr>Type = ''UpToDate'', Status = ''False'', ObservedGeneration = 1,
           Reason = ''Pending'', Message = ''none'', LastTransitionTime = 3\<rparr>]"
        "\<lparr>Type = ''UpToDate'', Status = ''True'', ObservedGeneration = 2,
          Reason = ''FinishedReconcile'', Message = ''two'', LastTransitionTime = 0\<rparr>"
        0]
  by (simp add: IsZero_def)

text \<open>
  C9, as stated: for every input list the result of \<open>replaceCondition\<close> holds exactly
  one condition of the new type. The loop returns at the first condition of that type, so
  a list that holds two keeps the second one: the result below has two conditions of
  type \<open>UpToDate\<close>.
\<close>

theorem replaceCondition_frame_counterexample:
  "map Type
     (replaceCondition 7
        [\<lparr>Type = ''UpToDate'', Status = ''False'', ObservedGeneration = 1,
          Reason = ''Pending'', Message = ''none'', LastTransitionTime = 3\<rparr>,
         \<lparr>Type = ''UpToDate'', Status = ''True'', ObservedGeneration = 1,
          Reason = ''NoWorkloadsFound'', Message = ''none'', LastTransitionTime = 4\<rparr>]
        \<lparr>Type = ''UpToDate'', Status = ''True'', ObservedGeneration = 2,
         Reason = ''FinishedReconcile'', Message = ''two'', LastTransitionTime = 0\<rparr>)
   = [''UpToDate'', ''UpToDate'']"
  by (simp add: IsZero_def)

text \<open>
  C9, amended: the result of \<open>replaceCondition\<close> holds exactly one condition of the new
  type when the input list holds at most one (in general as many as the input list, and
  one when the input list has none); every condition of another type is unchanged and
  keeps its position; and the list is one longer when the type was absent and as long as
  before when it was present.
\<close>

theorem replaceCondition_frame:
  "count_list (map Type (replaceCondition now conds newC)) (Type newC) =
     max 1 (count_list (map Type conds) (Type newC)) \<and>
   (count_list (map Type conds) (Type newC) \<le> 1 \<longrightarrow>
      count_list (map Type (replaceCondition now conds newC)) (Type newC) = 1) \<and>
   (\<forall>i<length conds. Type (conds ! i) \<noteq> Type newC \<longrightarrow>
      replaceCondition now conds newC ! i = conds ! i) \<and>
   length (replaceCondition now conds newC) =
     (if findCondition conds (Type newC) = None then Suc (length conds) else length conds)"
  by (simp add: replaceCondition_count replaceCondition_nth replaceCondition_length)

theorem replaceCondition_frame_witness:
  "count_list (map Type
     (replaceCondition 7
        [\<lparr>Type = ''Ready'', Status = ''True'', ObservedGeneration = 1,
          Reason = ''Ok'', Message = ''none'', LastTransitionTime = 3\<rparr>,
         \<lparr>Type = ''UpToDate'', Status = ''False'', ObservedGeneration = 1,
          Reason = ''Pending'', Message = ''none'', LastTransitionTime = 4\<rparr>]
        \<lparr>Type = ''UpToDate'', Status = ''True'', ObservedGeneration = 2,
         Reason = ''FinishedReconcile'', Message = ''two'', LastTransitionTime = 0\<rparr>))
     ''UpToDate'' = 1
   \<and> replaceCondition 7
        [\<lparr>Type = ''Ready'', Status = ''True'', ObservedGeneration = 1,
          Reason = ''Ok'', Message = ''none'', LastTransitionTime = 3\<rparr>,
         \<lparr>Type = ''UpToDate'', Status = ''False'', ObservedGeneration = 1,
          Reason = ''Pending'', Message = ''none'', LastTransitionTime = 4\<rparr>]
        \<lparr>Type = ''UpToDate'', Status = ''True'', ObservedGeneration = 2,
         Reason = ''FinishedReconcile'', Message = ''two'', LastTransitionTime = 0\<rparr> ! 0
     = \<lparr>Type = ''Ready'', Status = ''True'', ObservedGeneration = 1,
          Reason = ''Ok'', Message = ''none'', LastTransitionTime = 3\<rparr>"
  using replaceCondition_frame
    [of 7
        "[\<lparr>Type = ''Ready'', Status = ''True'', ObservedGeneration = 1,
           Reason = ''Ok'', Message = ''none'', LastTransitionTime = 3\<rparr>,
          \<lparr>Type = ''UpToDate'', Status = ''False'', ObservedGeneration = 1,
           Reason = ''Pending'', Message = ''none'', LastTransitionTime = 4\<rparr>]"
        "\<lparr>Type = ''UpToDate'', Status = ''True'', ObservedGeneration = 2,
          Reason = ''FinishedReconcile'', Message = ''two'', LastTransitionTime = 0\<rparr>"]
  by simp

section \<open>The claims about the reconcile loop\<close>

text \<open>
  C1: when the resource that \<open>Reconcile\<close> fetches has its deletion timestamp set, the
  call is the call of \<open>doDelete\<close> (after the read and the note in the tracker): it
  issues no status patch, which only the create and update path does, and a resource it
  sends in an update has the finalizers of the fetched one without the finalizer of the
  controller, and the conditions of the fetched one. So the finalizer is never added and
  the condition \<open>UpToDate\<close> is never set.
\<close>

theorem Reconcile_deleted_takes_delete_path:
  assumes "Get r (store w) req = Inr resource"
    and "\<not> IsZeroPtr (DeletionTimestamp resource)"
  shows "Reconcile r w req =
           doDelete r
             ((issue (CallGet req) w)\<lparr>recentlyDeleted :=
                recentlyDeletedCache_set (recentlyDeleted w) req True\<rparr>) resource \<and>
         (\<forall>c\<in>set (issued w (snd (Reconcile r w req))).
            \<not> isStatusPatch c \<and>
            (\<forall>x. c = CallUpdate x \<longrightarrow>
               Finalizers x = filter (\<lambda>f. f \<noteq> finalizerName r) (Finalizers resource) \<and>
               StatusConditions x = StatusConditions resource))"
proof
  show "Reconcile r w req =
           doDelete r
             ((issue (CallGet req) w)\<lparr>recentlyDeleted :=
                recentlyDeletedCache_set (recentlyDeleted w) req True\<rparr>) resource"
    using assms by (rule Reconcile_deleted)
next
  show "\<forall>c\<in>set (issued w (snd (Reconcile r w req))).
            \<not> isStatusPatch c \<and>
            (\<forall>x. c = CallUpdate x \<longrightarrow>
               Finalizers x = filter (\<lambda>f. f \<noteq> finalizerName r) (Finalizers resource) \<and>
               StatusConditions x = StatusConditions resource)"
    unfolding Reconcile_deleted_issued [OF assms]
    using listWorkloads_issued_kinds [of w r "SpecWorkload resource" "metaNamespace resource"]
    by (auto simp: RemoveFinalizer_fields loop_Finalizers loop_StatusConditions
        split: sum.splits if_splits)
qed

theorem Reconcile_deleted_takes_delete_path_witness:
  "Reconcile fakeReconciler
     (exampleWorld (exampleStore deletedResource False) \<lparr>cacheValues = None\<rparr>)
     (''default'', ''proxy'') =
   doDelete fakeReconciler
     ((issue (CallGet (''default'', ''proxy''))
         (exampleWorld (exampleStore deletedResource False) \<lparr>cacheValues = None\<rparr>))
      \<lparr>recentlyDeleted :=
         recentlyDeletedCache_set
           (recentlyDeleted
              (exampleWorld (exampleStore deletedResource False) \<lparr>cacheValues = None\<rparr>))
           (''default'', ''proxy'') True\<rparr>)
     deletedResource"
proof -
  have g: "Get fakeReconciler
      (store (exampleWorld (exampleStore deletedResource False) \<lparr>cacheValues = None\<rparr>))
      (''default'', ''proxy'') = Inr deletedResource"
    by (simp add: fakeReconciler_def exampleWorld_def exampleStore_def)
  have d: "\<not> IsZeroPtr (DeletionTimestamp deletedResource)"
    by (simp add: deletedResource_def IsZeroPtr_def IsZero_def)
  from Reconcile_deleted_takes_delete_path [OF g d] show ?thesis
    by (rule conjunct1)
qed

text \<open>
  C2: a call of \<open>Reconcile\<close> issues at most one write to the store, an update or a
  status patch, on every path and whatever the client answers.
\<close>

theorem Reconcile_one_write:
  "length (filter isWrite (issued w (snd (Reconcile r w req)))) \<le> 1"
proof (cases "Get r (store w) req")
  case (Inl err)
  then show ?thesis
    by (simp add: Reconcile_issued)
next
  case (Inr resource)
  then show ?thesis
    using doDelete_writes [of "(issue (CallGet req) w)\<lparr>recentlyDeleted :=
                 recentlyDeletedCache_set (recentlyDeleted w) req True\<rparr>" r resource]
      doCreateUpdate_prefix_writes [of r "(issue (CallGet req) w)\<lparr>recentlyDeleted :=
                 recentlyDeletedCache_set (recentlyDeleted w) req False\<rparr>" resource]
    by (simp add: Reconcile_issued)
qed

theorem Reconcile_one_write_witness:
  "length (filter isWrite
     (issued (exampleWorld (exampleStore namedResource False) \<lparr>cacheValues = None\<rparr>)
        (snd (Reconcile fakeReconciler
           (exampleWorld (exampleStore namedResource False) \<lparr>cacheValues = None\<rparr>)
           (''default'', ''proxy''))))) \<le> 1"
  by (rule Reconcile_one_write)

text \<open>
  C4, as stated: a resource under deletion with the finalizer present always ends with
  the finalizer removed, one update, no requeue and no error. \<open>doDelete\<close> returns
  before the update when the lookup of the workloads fails: in the run below the list
  call fails, and the call returns the error with an immediate requeue and issues no
  write.
\<close>

theorem Reconcile_delete_counterexample:
  "Get fakeReconciler (exampleStore deletedResource True) (''default'', ''proxy'') =
     Inr deletedResource \<and>
   \<not> IsZeroPtr (DeletionTimestamp deletedResource) \<and>
   ContainsFinalizer deletedResource (finalizerName fakeReconciler) \<and>
   fst (Reconcile fakeReconciler
          (exampleWorld (exampleStore deletedResource True) \<lparr>cacheValues = None\<rparr>)
          (''default'', ''proxy'')) = (requeueNow, Some (PlainError ''timeout'')) \<and>
   filter isWrite
     (calls (snd (Reconcile fakeReconciler
          (exampleWorld (exampleStore deletedResource True) \<lparr>cacheValues = None\<rparr>)
          (''default'', ''proxy'')))) = []"
  by (simp add: Reconcile_def doDelete_def updateWorkloadStatus_def listWorkloads_def
      loadByLabelSelector_def issue_def IsZeroPtr_def IsZero_def Let_def
      ContainsFinalizer_def finalizerName_def example_defs)

text \<open>
  C4, amended: for a resource under deletion with the finalizer present, when the lookup
  of the workloads succeeds the status of every workload found is recorded in the copy
  held in memory, the finalizer is removed, that copy is sent in one update, the only
  write of the call, and the call returns no requeue, with the error of the update if it
  failed and no error otherwise; the tracker then records the key as deleted. When the
  lookup fails the call returns its error with an immediate requeue and issues no write.
\<close>

theorem Reconcile_delete_with_finalizer:
  assumes "Get r (store w) req = Inr resource"
    and "\<not> IsZeroPtr (DeletionTimestamp resource)"
    and "ContainsFinalizer resource (finalizerName r)"
  shows
    "(\<forall>err. fst (listWorkloads r w (SpecWorkload resource) (metaNamespace resource)) = Inl err
        \<longrightarrow> fst (Reconcile r w req) = (requeueNow, Some err) \<and>
            filter isWrite (issued w (snd (Reconcile r w req))) = []) \<and>
     (\<forall>m. fst (listWorkloads r w (SpecWorkload resource) (metaNamespace resource)) = Inr m
        \<longrightarrow> fst (Reconcile r w req) =
              (noRequeue,
               snd (Update r (store w)
                 (RemoveFinalizer (fst (updateWorkloadStatus_loop m resource w))
                    (finalizerName r)))) \<and>
            filter isWrite (issued w (snd (Reconcile r w req))) =
              [CallUpdate (RemoveFinalizer (fst (updateWorkloadStatus_loop m resource w))
                 (finalizerName r))] \<and>
            Finalizers (RemoveFinalizer (fst (updateWorkloadStatus_loop m resource w))
                 (finalizerName r)) =
              filter (\<lambda>f. f \<noteq> finalizerName r) (Finalizers resource) \<and>
            \<not> ContainsFinalizer
                 (RemoveFinalizer (fst (updateWorkloadStatus_loop m resource w))
                    (finalizerName r)) (finalizerName r) \<and>
            (\<forall>wl\<in>set m.
               \<exists>s\<in>set (StatusWorkloadStatus
                         (RemoveFinalizer (fst (updateWorkloadStatus_loop m resource w))
                            (finalizerName r))).
                 markedUpToDate wl s) \<and>
            recentlyDeletedCache_get (recentlyDeleted (snd (Reconcile r w req))) req)"
proof (intro conjI allI impI ballI)
  fix err
  assume "fst (listWorkloads r w (SpecWorkload resource) (metaNamespace resource)) = Inl err"
  then show "fst (Reconcile r w req) = (requeueNow, Some err)"
    and "filter isWrite (issued w (snd (Reconcile r w req))) = []"
    using assms(3)
    by (simp_all add: Reconcile_deleted_result [OF assms(1,2)]
        Reconcile_deleted_issued [OF assms(1,2)] listWorkloads_reads)
next
  fix m
  assume m: "fst (listWorkloads r w (SpecWorkload resource) (metaNamespace resource)) = Inr m"
  let ?sent = "RemoveFinalizer (fst (updateWorkloadStatus_loop m resource w)) (finalizerName r)"
  show "fst (Reconcile r w req) = (noRequeue, snd (Update r (store w) ?sent))"
    using m assms(3) by (simp add: Reconcile_deleted_result [OF assms(1,2)])
  show "filter isWrite (issued w (snd (Reconcile r w req))) = [CallUpdate ?sent]"
    using m assms(3)
    by (simp add: Reconcile_deleted_issued [OF assms(1,2)] listWorkloads_reads)
  show "Finalizers ?sent = filter (\<lambda>f. f \<noteq> finalizerName r) (Finalizers resource)"
    by (simp add: RemoveFinalizer_fields loop_Finalizers)
  then show "\<not> ContainsFinalizer ?sent (finalizerName r)"
    by (simp add: ContainsFinalizer_def)
  show "recentlyDeletedCache_get (recentlyDeleted (snd (Reconcile r w req))) req"
    using assms(1,2) by (rule Reconcile_deleted_tracker)
  fix wl assume "wl \<in> set m"
  then show "\<exists>s\<in>set (StatusWorkloadStatus ?sent). markedUpToDate wl s"
    using loop_marks [of wl m resource w] by (simp add: RemoveFinalizer_fields)
qed

theorem Reconcile_delete_with_finalizer_witness:
  "fst (Reconcile fakeReconciler
          (exampleWorld (exampleStore deletedResource False) \<lparr>cacheValues = None\<rparr>)
          (''default'', ''proxy'')) = (noRequeue, None) \<and>
   filter isWrite
     (issued (exampleWorld (exampleStore deletedResource False) \<lparr>cacheValues = None\<rparr>)
        (snd (Reconcile fakeReconciler
          (exampleWorld (exampleStore deletedResource False) \<lparr>cacheValues = None\<rparr>)
          (''default'', ''proxy'')))) =
     [CallUpdate (deletedResource
        \<lparr>Finalizers := [],
         StatusWorkloadStatus :=
           [\<lparr>Kind = ''Deployment'', Version = ''apps/v1'', Namespace = ''default'',
             Name = ''web'',
             Conditions = [\<lparr>Type = ''WorkloadUpToDate'', Status = ''True'',
               ObservedGeneration = 2, Reason = ''UpToDate'',
               Message = ''No update needed for this workload'',
               LastTransitionTime = 100\<rparr>]\<rparr>]\<rparr>)]"
proof -
  let ?w = "exampleWorld (exampleStore deletedResource False) \<lparr>cacheValues = None\<rparr>"
  have g: "Get fakeReconciler (store ?w) (''default'', ''proxy'') = Inr deletedResource"
    by (simp add: fakeReconciler_def exampleWorld_def exampleStore_def)
  have d: "\<not> IsZeroPtr (DeletionTimestamp deletedResource)"
    by (simp add: deletedResource_def IsZeroPtr_def IsZero_def)
  have f: "ContainsFinalizer deletedResource (finalizerName fakeReconciler)"
    by (simp add: ContainsFinalizer_def finalizerName_def fakeReconciler_def
        deletedResource_def)
  have l: "fst (listWorkloads fakeReconciler ?w (SpecWorkload deletedResource)
             (metaNamespace deletedResource)) = Inr [webDeployment]"
    by (simp add: listWorkloads_def loadByLabelSelector_def issue_def Let_def example_defs)
  have s: "RemoveFinalizer (fst (updateWorkloadStatus_loop [webDeployment] deletedResource ?w))
             (finalizerName fakeReconciler) =
           deletedResource
             \<lparr>Finalizers := [],
              StatusWorkloadStatus :=
                [\<lparr>Kind = ''Deployment'', Version = ''apps/v1'', Namespace = ''default'',
                  Name = ''web'',
                  Conditions = [\<lparr>Type = ''WorkloadUpToDate'', Status = ''True'',
                    ObservedGeneration = 2, Reason = ''UpToDate'',
                    Message = ''No update needed for this workload'',
                    LastTransitionTime = 100\<rparr>]\<rparr>]\<rparr>"
    by (simp add: Now_def Let_def RemoveFinalizer_def finalizerName_def newStatus_def
        replaceStatus_def ConditionWorkloadUpToDate_def ConditionTrue_def ReasonUpToDate_def
        example_defs)
  have u: "\<And>st x. snd (Update fakeReconciler st x) = None"
    by (simp add: fakeReconciler_def)
  from Reconcile_delete_with_finalizer [OF g d f] l
  have "fst (Reconcile fakeReconciler ?w (''default'', ''proxy'')) =
          (noRequeue,
           snd (Update fakeReconciler (store ?w)
             (RemoveFinalizer (fst (updateWorkloadStatus_loop [webDeployment] deletedResource ?w))
                (finalizerName fakeReconciler))))"
    and "filter isWrite (issued ?w (snd (Reconcile fakeReconciler ?w (''default'', ''proxy'')))) =
          [CallUpdate (RemoveFinalizer
             (fst (updateWorkloadStatus_loop [webDeployment] deletedResource ?w))
             (finalizerName fakeReconciler))]"
    by blast+
  then show ?thesis
    unfolding s u by (intro conjI)
qed

text \<open>
  C5: when the read of the resource fails with not-found, \<open>Reconcile\<close> returns no
  requeue and no error if the tracker holds the key as deleted, and otherwise the error
  of the read with the requeue after the delay; it issues no other call and leaves the
  tracker as it is. The tracker holds for a key what the last \<open>set\<close> for it recorded.
  The code takes the same two branches for any error of the read, not-found or not.
\<close>

theorem Reconcile_not_found:
  assumes "Get r (store w) req = Inl err"
    and "IsNotFound err"
  shows "fst (Reconcile r w req) =
           (if recentlyDeletedCache_get (recentlyDeleted w) req then (noRequeue, None)
            else (requeueWithDelay, Some err)) \<and>
         issued w (snd (Reconcile r w req)) = [CallGet req] \<and>
         recentlyDeleted (snd (Reconcile r w req)) = recentlyDeleted w \<and>
         recentlyDeletedCache_get (recentlyDeletedCache_set c req deleted) req = deleted"
  using assms
  by (simp add: Reconcile_def Let_def issue_def issued_def tracker_get_set)

theorem Reconcile_not_found_witness:
  "fst (Reconcile fakeReconciler
          (exampleWorld emptyStore
             (recentlyDeletedCache_set \<lparr>cacheValues = None\<rparr> (''default'', ''proxy'') True))
          (''default'', ''proxy'')) = (noRequeue, None)"
proof -
  let ?w = "exampleWorld emptyStore
             (recentlyDeletedCache_set \<lparr>cacheValues = None\<rparr> (''default'', ''proxy'') True)"
  have g: "Get fakeReconciler (store ?w) (''default'', ''proxy'') =
      Inl (StatusError ''NotFound'' 404 ''not found'')"
    by (simp add: fakeReconciler_def exampleWorld_def emptyStore_def)
  have n: "IsNotFound (StatusError ''NotFound'' 404 ''not found'')"
    by (simp add: IsNotFound_def)
  have t: "recentlyDeletedCache_get (recentlyDeleted ?w) (''default'', ''proxy'')"
    by (simp add: exampleWorld_def recentlyDeletedCache_get_def recentlyDeletedCache_set_def)
  from Reconcile_not_found [OF g n] t show ?thesis
    by simp
qed

text \<open>
  C8: a lookup by name (the selector has a name) whose point read answers not-found
  returns the empty list of workloads and no error, from \<open>loadByName\<close> and from
  \<open>listWorkloads\<close>, which calls it with the namespace of the selector when that is set.
  Not-found is what \<open>errors.IsNotFound\<close> accepts: the reason \<open>NotFound\<close>, or the
  code 404 with a reason that is not a known one, on the error itself or on an error it
  wraps.
\<close>

theorem listWorkloads_not_found_is_empty:
  assumes "selName sel \<noteq> []"
    and "WorkloadForKind r (selKind sel) = Inr wl"
    and "GetObject r (store w)
           (if selNamespace sel \<noteq> [] then selNamespace sel else ns, selName sel) wl = Inl err"
    and "IsNotFound err"
  shows "fst (listWorkloads r w sel ns) = Inr [] \<and>
         fst (loadByName r w sel (if selNamespace sel \<noteq> [] then selNamespace sel else ns))
           = Inr []"
  using assms by (simp add: listWorkloads_def loadByName_def Let_def)

theorem listWorkloads_not_found_is_empty_witness:
  "fst (listWorkloads fakeReconciler
          (exampleWorld (exampleStore namedResource False) \<lparr>cacheValues = None\<rparr>)
          byName ''default'') = Inr []"
proof -
  let ?w = "exampleWorld (exampleStore namedResource False) \<lparr>cacheValues = None\<rparr>"
  let ?wl = "\<lparr>objKind = ''Deployment'', objVersion = ''apps/v1'', objNamespace = [],
              objName = []\<rparr>"
  have a: "selName byName \<noteq> []"
    by (simp add: byName_def)
  have b: "WorkloadForKind fakeReconciler (selKind byName) = Inr ?wl"
    by (simp add: fakeReconciler_def byName_def)
  have c: "GetObject fakeReconciler (store ?w)
      (if selNamespace byName \<noteq> [] then selNamespace byName else ''default'', selName byName)
      ?wl = Inl (StatusError ''NotFound'' 404 ''not found'')"
    by (simp add: example_defs)
  have d: "IsNotFound (StatusError ''NotFound'' 404 ''not found'')"
    by (simp add: IsNotFound_def)
  from listWorkloads_not_found_is_empty [OF a b c d] show ?thesis
    by (rule conjunct1)
qed

text \<open>
  C10: \<open>updateWorkloadStatus\<close> leaves the store as it is and issues at most one call,
  never a write: a point read when the selector has a name, a list call otherwise. Of
  the resource held in memory it changes the list of workload statuses only.
\<close>

theorem updateWorkloadStatus_reads_only:
  "store (snd (snd (updateWorkloadStatus r w resource))) = store w \<and>
   calls (snd (snd (updateWorkloadStatus r w resource))) =
     calls w @ issued w (snd (snd (updateWorkloadStatus r w resource))) \<and>
   length (issued w (snd (snd (updateWorkloadStatus r w resource)))) \<le> 1 \<and>
   (\<forall>c\<in>set (issued w (snd (snd (updateWorkloadStatus r w resource)))).
      \<not> isWrite c \<and>
      (if selName (SpecWorkload resource) \<noteq> [] then isGetObject c else isList c)) \<and>
   (fst (snd (updateWorkloadStatus r w resource)))
     \<lparr>StatusWorkloadStatus := StatusWorkloadStatus resource\<rparr> = resource"
proof -
  let ?lw = "listWorkloads r w (SpecWorkload resource) (metaNamespace resource)"
  have i: "issued w (snd (snd (updateWorkloadStatus r w resource))) = issued w (snd ?lw)"
    by (rule issued_append) (simp add: updateWorkloadStatus_eq)
  have "(fst (snd (updateWorkloadStatus r w resource)))
     \<lparr>StatusWorkloadStatus := StatusWorkloadStatus resource\<rparr> = resource"
    by (simp add: updateWorkloadStatus_eq loop_frame split: sum.splits)
  moreover have "store (snd (snd (updateWorkloadStatus r w resource))) = store w"
    by (simp add: updateWorkloadStatus_eq)
  moreover have "calls (snd (snd (updateWorkloadStatus r w resource))) =
     calls w @ issued w (snd (snd (updateWorkloadStatus r w resource)))"
    unfolding i by (simp add: updateWorkloadStatus_eq)
  moreover have "\<forall>c\<in>set (issued w (snd ?lw)). \<not> isWrite c \<and>
      (if selName (SpecWorkload resource) \<noteq> [] then isGetObject c else isList c)"
    using listWorkloads_issued_kinds [of w r "SpecWorkload resource" "metaNamespace resource"]
    by blast
  ultimately show ?thesis
    unfolding i using listWorkloads_length [of w r "SpecWorkload resource" "metaNamespace resource"]
    by blast
qed

theorem updateWorkloadStatus_reads_only_witness:
  "store (snd (snd (updateWorkloadStatus fakeReconciler
      (exampleWorld (exampleStore deletedResource False) \<lparr>cacheValues = None\<rparr>)
      deletedResource))) = exampleStore deletedResource False \<and>
   (fst (snd (updateWorkloadStatus fakeReconciler
      (exampleWorld (exampleStore deletedResource False) \<lparr>cacheValues = None\<rparr>)
      deletedResource)))\<lparr>StatusWorkloadStatus := []\<rparr> = deletedResource"
  using updateWorkloadStatus_reads_only [of fakeReconciler
      "exampleWorld (exampleStore deletedResource False) \<lparr>cacheValues = None\<rparr>"
      deletedResource]
  by (simp add: exampleWorld_def deletedResource_def)

end
